theory Spec2Isabelle
  imports Complex_Main "HOL-Library.Word"
begin

section \<open>Empty-shelf detection engine: data model\<close>

text \<open>
  The development embeds the decision logic of three detector classes of the repository:
  \<^verbatim>\<open>ImprovedYOLODetector\<close> (improved_yolo_detector.py), \<^verbatim>\<open>YOLOv8mShelfDetector\<close>
  (yolo8m_shelf_detector.py) and \<^verbatim>\<open>EnhancedShelfDetector\<close> (enhanced_detector.py).

  Python floats are modelled as \<^typ>\<open>real\<close>: rounding, infinities and NaN are not
  represented. Python's unbounded non-negative counters are \<^typ>\<open>nat\<close>. The OpenCV and
  YOLO computations are library code outside the repository; they enter the model as
  function parameters (a \<^emph>\<open>backend\<close>) that may raise, and the arithmetic and control flow
  that the repository itself wraps around them is modelled in full.
\<close>

subsection \<open>Regions of interest\<close>

text \<open>
  A region is a NumPy array of 8-bit samples with shape \<^verbatim>\<open>(height, width)\<close> or
  \<^verbatim>\<open>(height, width, channels)\<close>; the argument \<^verbatim>\<open>roi\<close> may also be \<^verbatim>\<open>None\<close>.
\<close>

record image =
  height :: nat
  width :: nat
  channels :: "nat option"
  pixels :: "8 word list"

type_synonym roi = "image option"

definition roi_size :: "image \<Rightarrow> nat" where
  "roi_size im = height im * width im * (case channels im of None \<Rightarrow> 1 | Some c \<Rightarrow> c)"

datatype py_error = KeyError | BackendError

subsection \<open>Feature dictionaries read by the confidence aggregators\<close>

text \<open>
  The extractors return dictionaries; the records keep the keys that the aggregators of
  \<^verbatim>\<open>ImprovedYOLODetector\<close> and \<^verbatim>\<open>YOLOv8mShelfDetector\<close> read.
\<close>

record uniformity_dict =
  total_variance :: real
  uniformity_score :: real
  is_uniform :: bool

record objects_dict =
  meaningful_object_count :: nat
  object_density :: real
  edge_density :: real

record color_dict =
  color_richness :: real
  has_diverse_colors :: bool

record texture_dict =
  texture_score :: real
  has_texture :: bool

record structure_dict =
  structure_score :: real
  has_structure :: bool

record analysis =
  uniformity :: uniformity_dict
  objects :: objects_dict
  color :: color_dict
  texture :: texture_dict
  structure_a :: structure_dict

text \<open>The entries of \<^verbatim>\<open>self.detection_params\<close> that the modelled methods read.\<close>

record detection_params =
  edge_density_threshold :: real
  supermarket_mode :: bool
  video_compression_factor :: real
  lighting_variance_threshold :: real

text \<open>
  The dictionary returned by the aggregators. The keys \<^verbatim>\<open>empty_indicators\<close>,
  \<^verbatim>\<open>supermarket_indicators\<close>, \<^verbatim>\<open>yolo_indicators\<close> and \<^verbatim>\<open>yolo_enhanced\<close> are debugging
  counters that no caller reads; they are left out.
\<close>

record confidence_data =
  is_empty :: bool
  empty_confidence :: real
  fullness_score :: real
  method_scores :: "(string \<times> real) list"

text \<open>Python's \<^verbatim>\<open>sum\<close> over a list of booleans.\<close>

definition sum_bools :: "bool list \<Rightarrow> nat" where
  "sum_bools bs = sum_list (map of_bool bs)"

section \<open>ImprovedYOLODetector\<close>

subsection \<open>Constants set by the constructor\<close>

definition improved_detection_params :: detection_params where
  "improved_detection_params =
     \<lparr> edge_density_threshold = 0.025, supermarket_mode = True,
       video_compression_factor = 0.85, lighting_variance_threshold = 150 \<rparr>"

definition improved_history_length :: nat where
  "improved_history_length = 10"

definition improved_cooldown_time :: real where
  "improved_cooldown_time = 1.5"

subsection \<open>The confidence aggregator\<close>

text \<open>
  \<^verbatim>\<open>ImprovedYOLODetector._calculate_improved_confidence\<close>, in the three stages of the
  method body: counting the empty indicators, the weighted scoring by bands, and the
  sensitivity adjustment; the last definition assembles the returned dictionary.
\<close>

definition improved_empty_indicators :: "'p detection_params_scheme \<Rightarrow> analysis \<Rightarrow> nat" where
  "improved_empty_indicators params a =
    (let has_few_objects = meaningful_object_count (objects a) \<le> 1;
         low_color_diversity = \<not> has_diverse_colors (color a);
         low_texture = \<not> has_texture (texture a);
         minimal_structure = \<not> has_structure (structure_a a);
         supermarket_empty_indicators =
           (if supermarket_mode params then
              [total_variance (uniformity a) < lighting_variance_threshold params
                 \<and> meaningful_object_count (objects a) = 0,
               uniformity_score (uniformity a) > 0.75,
               edge_density (objects a) < edge_density_threshold params]
            else []);
         primary_empty_indicators =
           sum_bools [is_uniform (uniformity a), has_few_objects, low_color_diversity,
                      low_texture, minimal_structure];
         supermarket_indicators_count = sum_bools supermarket_empty_indicators
     in primary_empty_indicators + supermarket_indicators_count)"

definition improved_weighted_scoring ::
    "'p detection_params_scheme \<Rightarrow> analysis \<Rightarrow> nat \<Rightarrow> real \<times> bool" where
  "improved_weighted_scoring params a total_empty_indicators =
     (if total_empty_indicators \<ge> 5 then
        (0.85 + min 0.15 (real (total_empty_indicators - 5) * 0.03), True)
      else if total_empty_indicators \<ge> 3 then
        (0.65 + real (total_empty_indicators - 3) * 0.1, True)
      else if total_empty_indicators \<ge> 2 then
        (0.45 + real (total_empty_indicators - 2) * 0.1, total_empty_indicators \<ge> 3)
      else
        (let compression_factor = video_compression_factor params;
             fullness =
               (object_density (objects a) * 0.4 +
                color_richness (color a) * 0.3 +
                texture_score (texture a) * 0.2 +
                structure_score (structure_a a) / 5.0 * 0.1) * compression_factor
         in (min 1.0 fullness, False)))"

definition improved_sensitivity_adjustment :: "real \<Rightarrow> real \<Rightarrow> bool \<Rightarrow> real" where
  "improved_sensitivity_adjustment sens conf emp =
     (if emp then (let sensitivity_boost = 1.0 + sens * 0.3 in min 1.0 (conf * sensitivity_boost))
      else max 0.0 (conf * (2.0 - sens)))"

definition calculate_improved_confidence ::
    "'p detection_params_scheme \<Rightarrow> real \<Rightarrow> analysis \<Rightarrow> confidence_data" where
  "calculate_improved_confidence params sens a =
    (let total_empty_indicators = improved_empty_indicators params a;
         (conf, emp) = improved_weighted_scoring params a total_empty_indicators;
         conf' = improved_sensitivity_adjustment sens conf emp
     in \<lparr> is_empty = emp,
          empty_confidence = conf',
          fullness_score = (if emp then 1.0 - conf' else conf'),
          method_scores =
            [(''uniformity_analysis'', uniformity_score (uniformity a)),
             (''object_detection'', object_density (objects a)),
             (''color_analysis'', color_richness (color a)),
             (''texture_analysis'', texture_score (texture a)),
             (''structure_analysis'', min 1.0 (structure_score (structure_a a) / 5.0))] \<rparr>)"

subsection \<open>Per-section state, history records and results\<close>

text \<open>
  The mutable attributes of a detector instance. The history record type is a parameter
  because \<^verbatim>\<open>EnhancedShelfDetector\<close> stores different keys.
\<close>

record 'h detector_state =
  sensitivity :: real
  detection_history :: "string \<rightharpoonup> 'h list"
  alert_cooldown :: "string \<rightharpoonup> real"
  frame_count :: nat

text \<open>The constructor \<^verbatim>\<open>__init__(self, sensitivity)\<close>, the same in the three classes.\<close>

definition init_state :: "real \<Rightarrow> 'h detector_state" where
  "init_state s =
     \<lparr> sensitivity = s, detection_history = Map.empty, alert_cooldown = Map.empty,
       frame_count = 0 \<rparr>"

text \<open>
  A history record of \<^verbatim>\<open>ImprovedYOLODetector\<close> and \<^verbatim>\<open>YOLOv8mShelfDetector\<close>. The keys
  \<^verbatim>\<open>analysis\<close> and \<^verbatim>\<open>yolo_products\<close> hold a copy of the extractor output that is never
  read back; they are left out.
\<close>

record detection_record =
  h_timestamp :: real
  h_is_empty :: bool
  h_empty_confidence :: real
  h_fullness_score :: real
  h_visual_state :: string
  h_alert_level :: string
  h_frame_number :: nat

text \<open>
  The dictionary returned by \<^verbatim>\<open>analyze_shelf_region\<close>. The three classes return
  different key sets; a key that a class does not return is \<^term>\<open>None\<close>. \<^verbatim>\<open>r_reason\<close> is
  the message of a canned input-error result (\<^verbatim>\<open>details['error']\<close>, \<^verbatim>\<open>error\<close> or
  \<^verbatim>\<open>details['reason']\<close>). The pass-through keys \<^verbatim>\<open>details\<close>, \<^verbatim>\<open>analysis_details\<close>,
  \<^verbatim>\<open>yolo_products\<close> and the display lookup \<^verbatim>\<open>visual_feedback\<close> are left out.
\<close>

record result =
  r_is_empty :: bool
  r_confidence :: real
  r_fullness_score :: "real option"
  r_should_alert :: bool
  r_alert_level :: "string option"
  r_visual_state :: string
  r_stability :: "nat option"
  r_detection_strength :: "real option"
  r_method_scores :: "(string \<times> real) list"
  r_frame_count :: "nat option"
  r_timestamp :: "real option"
  r_trend :: "string option"
  r_reason :: "string option"

text \<open>Python list slices \<^verbatim>\<open>xs[-n:]\<close> and \<^verbatim>\<open>xs[-5:-2]\<close>, and \<^verbatim>\<open>np.mean\<close> of a non-empty list.\<close>

definition last_n :: "nat \<Rightarrow> 'a list \<Rightarrow> 'a list" where
  "last_n n xs = drop (length xs - n) xs"

definition slice_m5_m2 :: "'a list \<Rightarrow> 'a list" where
  "slice_m5_m2 xs = take ((length xs - 2) - (length xs - 5)) (drop (length xs - 5) xs)"

definition mean :: "real list \<Rightarrow> real" where
  "mean xs = sum_list xs / real (length xs)"

subsection \<open>Labels\<close>

text \<open>\<^verbatim>\<open>_determine_visual_state\<close>, the same in \<^verbatim>\<open>ImprovedYOLODetector\<close> and
  \<^verbatim>\<open>YOLOv8mShelfDetector\<close>.\<close>

definition determine_visual_state :: "real \<Rightarrow> bool \<Rightarrow> string" where
  "determine_visual_state confidence emp =
     (if \<not> emp then ''WELL_STOCKED''
      else if confidence \<ge> 0.85 then ''CRITICALLY_EMPTY''
      else if confidence \<ge> 0.70 then ''MOSTLY_EMPTY''
      else if confidence \<ge> 0.55 then ''PARTIALLY_EMPTY''
      else if confidence \<ge> 0.40 then ''LOW_STOCK''
      else ''UNCERTAIN'')"

text \<open>\<^verbatim>\<open>ImprovedYOLODetector._determine_alert_level\<close>.\<close>

definition improved_determine_alert_level :: "real \<Rightarrow> bool \<Rightarrow> string" where
  "improved_determine_alert_level confidence emp =
     (if \<not> emp then ''NONE''
      else if confidence \<ge> 0.85 then ''CRITICAL''
      else if confidence \<ge> 0.70 then ''HIGH''
      else if confidence \<ge> 0.55 then ''MEDIUM''
      else ''LOW'')"

subsection \<open>Temporal stabiliser\<close>

record stability_data =
  consistency_score :: nat
  detection_strength :: real
  trend :: string

text \<open>
  \<^verbatim>\<open>ImprovedYOLODetector._calculate_stability_metrics\<close>, on the history list that the
  method reads from \<^verbatim>\<open>self.detection_history[shelf_name]\<close>.
\<close>

definition stability_metrics_of :: "detection_record list \<Rightarrow> stability_data" where
  "stability_metrics_of history =
     (if length history < 3 then
        \<lparr> consistency_score = length history, detection_strength = 0.5,
          trend = ''UNKNOWN'' \<rparr>
      else
        (let recent_states = map h_is_empty (last_n 5 history);
             consistent_detections =
               length (filter (\<lambda>state. state = last recent_states) recent_states);
             recent_confidences = map h_empty_confidence (last_n 3 history);
             trend' =
               (if length history \<ge> 5 then
                  (let old_avg = mean (map h_fullness_score (slice_m5_m2 history));
                       new_avg = mean (map h_fullness_score (last_n 3 history))
                   in if new_avg > old_avg + 0.1 then ''IMPROVING''
                      else if new_avg < old_avg - 0.1 then ''DECLINING''
                      else ''STABLE'')
                else ''UNKNOWN'')
         in \<lparr> consistency_score = min 5 consistent_detections,
              detection_strength = mean recent_confidences,
              trend = trend' \<rparr>))"

definition calculate_stability_metrics ::
    "detection_record detector_state \<Rightarrow> string \<Rightarrow> py_error + stability_data" where
  "calculate_stability_metrics st shelf_name =
     (case detection_history st shelf_name of
        None \<Rightarrow> Inl KeyError
      | Some history \<Rightarrow> Inr (stability_metrics_of history))"

subsection \<open>Alert policy\<close>

text \<open>
  \<^verbatim>\<open>ImprovedYOLODetector._should_trigger_alert\<close>: returns the decision and the state with
  the cooldown clock updated when the alert fires.
\<close>

definition improved_should_trigger_alert ::
    "string \<Rightarrow> real \<Rightarrow> confidence_data \<Rightarrow> stability_data \<Rightarrow> string \<Rightarrow>
     'h detector_state \<Rightarrow> (py_error + bool) \<times> 'h detector_state" where
  "improved_should_trigger_alert shelf_name timestamp cd sd alert_level st =
     (if \<not> is_empty cd \<or> alert_level = ''NONE'' then (Inr False, st)
      else if empty_confidence cd < 0.5 then (Inr False, st)
      else if consistency_score sd < 2 then (Inr False, st)
      else case alert_cooldown st shelf_name of
             None \<Rightarrow> (Inl KeyError, st)
           | Some c \<Rightarrow>
               if timestamp - c < improved_cooldown_time then (Inr False, st)
               else (Inr True,
                     st\<lparr>alert_cooldown := (alert_cooldown st)(shelf_name \<mapsto> timestamp)\<rparr>))"

subsection \<open>Entry points\<close>

text \<open>\<^verbatim>\<open>ImprovedYOLODetector.update_sensitivity\<close>.\<close>

definition improved_update_sensitivity :: "real \<Rightarrow> 'h detector_state \<Rightarrow> 'h detector_state" where
  "improved_update_sensitivity new_sensitivity st =
     st\<lparr>sensitivity := max 0.1 (min 1.0 new_sensitivity)\<rparr>"

text \<open>\<^verbatim>\<open>ImprovedYOLODetector._create_error_result\<close>; \<open>now\<close> is the reading of
  \<^verbatim>\<open>time.time()\<close>.\<close>

definition improved_create_error_result ::
    "string \<Rightarrow> string \<Rightarrow> real \<Rightarrow> 'h detector_state \<Rightarrow> result" where
  "improved_create_error_result error_message shelf_name now st =
     \<lparr> r_is_empty = True, r_confidence = 1.0, r_fullness_score = Some 0.0,
       r_should_alert = False, r_alert_level = Some ''CRITICAL'',
       r_visual_state = ''CRITICALLY_EMPTY'', r_stability = Some 0,
       r_detection_strength = Some 0.0,
       r_method_scores =
         map (\<lambda>method. (method, 0.0))
           [''uniformity_analysis'', ''object_detection'', ''color_analysis'',
            ''texture_analysis'', ''structure_analysis''],
       r_frame_count = Some (frame_count st), r_timestamp = Some now,
       r_trend = Some ''UNKNOWN'', r_reason = Some error_message \<rparr>"

text \<open>The steps of \<^verbatim>\<open>analyze_shelf_region\<close> shared by the three classes: lazy creation
  of a section's state, and the bounded append to its history.\<close>

definition init_section :: "string \<Rightarrow> 'h detector_state \<Rightarrow> 'h detector_state" where
  "init_section shelf_name st =
     (if shelf_name \<notin> dom (detection_history st) then
        st\<lparr>detection_history := (detection_history st)(shelf_name \<mapsto> []),
           alert_cooldown := (alert_cooldown st)(shelf_name \<mapsto> 0)\<rparr>
      else st)"

definition append_bounded :: "nat \<Rightarrow> 'h \<Rightarrow> 'h list \<Rightarrow> 'h list" where
  "append_bounded history_length rec history =
     (let history' = history @ [rec]
      in if length history' > history_length then tl history' else history')"

definition record_detection ::
    "nat \<Rightarrow> string \<Rightarrow> 'h \<Rightarrow> 'h detector_state \<Rightarrow> py_error + 'h detector_state" where
  "record_detection history_length shelf_name rec st =
     (case detection_history st shelf_name of
        None \<Rightarrow> Inl KeyError
      | Some history \<Rightarrow>
          Inr (st\<lparr>detection_history :=
                    (detection_history st)
                      (shelf_name \<mapsto> append_bounded history_length rec history)\<rparr>))"

text \<open>
  \<^verbatim>\<open>ImprovedYOLODetector.analyze_shelf_region\<close>. \<open>backend\<close> stands for
  \<^verbatim>\<open>_perform_improved_analysis\<close> (OpenCV); when it raises, the exception leaves the method
  with the state changes made so far. The result is paired with the new state.
\<close>

definition improved_analyze_shelf_region ::
    "(image \<Rightarrow> py_error + analysis) \<Rightarrow> roi \<Rightarrow> string \<Rightarrow> real option \<Rightarrow> real \<Rightarrow>
     detection_record detector_state \<Rightarrow>
     (py_error + result) \<times> detection_record detector_state" where
  "improved_analyze_shelf_region backend roi shelf_name timestamp_arg now st =
     (let timestamp = (case timestamp_arg of None \<Rightarrow> now | Some t \<Rightarrow> t)
      in case roi of
           None \<Rightarrow> (Inr (improved_create_error_result ''No image data'' shelf_name now st), st)
         | Some im \<Rightarrow>
             if roi_size im = 0 then
               (Inr (improved_create_error_result ''No image data'' shelf_name now st), st)
             else if height im < 50 \<or> width im < 50 then
               (Inr (improved_create_error_result ''Region too small for analysis''
                       shelf_name now st), st)
             else
               (let st1 = init_section shelf_name (st\<lparr>frame_count := frame_count st + 1\<rparr>)
                in case backend im of
                     Inl e \<Rightarrow> (Inl e, st1)
                   | Inr analysis_results \<Rightarrow>
                       (let cd = calculate_improved_confidence improved_detection_params
                                   (sensitivity st1) analysis_results;
                            visual_state =
                              determine_visual_state (empty_confidence cd) (is_empty cd);
                            alert_level =
                              improved_determine_alert_level (empty_confidence cd) (is_empty cd);
                            detection_rec =
                              \<lparr> h_timestamp = timestamp, h_is_empty = is_empty cd,
                                h_empty_confidence = empty_confidence cd,
                                h_fullness_score = fullness_score cd,
                                h_visual_state = visual_state, h_alert_level = alert_level,
                                h_frame_number = frame_count st1 \<rparr>
                        in case record_detection improved_history_length shelf_name
                                  detection_rec st1 of
                             Inl e \<Rightarrow> (Inl e, st1)
                           | Inr st2 \<Rightarrow>
                               (case calculate_stability_metrics st2 shelf_name of
                                  Inl e \<Rightarrow> (Inl e, st2)
                                | Inr sd \<Rightarrow>
                                    (case improved_should_trigger_alert shelf_name timestamp
                                            cd sd alert_level st2 of
                                       (Inl e, st3) \<Rightarrow> (Inl e, st3)
                                     | (Inr should_alert, st3) \<Rightarrow>
                                         (Inr \<lparr> r_is_empty = is_empty cd,
                                                r_confidence = empty_confidence cd,
                                                r_fullness_score = Some (fullness_score cd),
                                                r_should_alert = should_alert,
                                                r_alert_level = Some alert_level,
                                                r_visual_state = visual_state,
                                                r_stability = Some (consistency_score sd),
                                                r_detection_strength =
                                                  Some (detection_strength sd),
                                                r_method_scores = method_scores cd,
                                                r_frame_count = Some (frame_count st3),
                                                r_timestamp = Some timestamp,
                                                r_trend = Some (trend sd),
                                                r_reason = None \<rparr>,
                                          st3))))))"

section \<open>YOLOv8mShelfDetector\<close>

subsection \<open>Constants set by the constructor\<close>

record yolo_detection_params = detection_params +
  yolo_confidence_threshold :: real
  empty_confidence_boost :: real

definition yolo8m_detection_params :: yolo_detection_params where
  "yolo8m_detection_params =
     \<lparr> edge_density_threshold = 0.022, supermarket_mode = True,
       video_compression_factor = 0.85, lighting_variance_threshold = 120,
       yolo_confidence_threshold = 0.20, empty_confidence_boost = 0.12 \<rparr>"

definition product_classes :: "string set" where
  "product_classes =
     {''bottle'', ''cup'', ''bowl'', ''banana'', ''apple'', ''sandwich'', ''orange'',
      ''broccoli'', ''carrot'', ''hot dog'', ''pizza'', ''donut'', ''cake'',
      ''potted plant'', ''vase'', ''scissors'', ''toothbrush'', ''book'',
      ''cell phone'', ''laptop'', ''mouse'', ''remote'', ''keyboard'', ''microwave'',
      ''oven'', ''toaster'', ''sink'', ''refrigerator'', ''clock'', ''teddy bear'',
      ''hair drier'', ''toothbrush'', ''wine glass'', ''fork'', ''knife'', ''spoon''}"

definition yolo8m_history_length :: nat where
  "yolo8m_history_length = 15"

definition yolo8m_cooldown_time :: real where
  "yolo8m_cooldown_time = 1.0"

subsection \<open>Object evidence adapter\<close>

text \<open>
  One box of the detector output, as the adapter reads it: the class name
  \<^verbatim>\<open>yolo_model.names[int(box.cls[0])]\<close>, \<^verbatim>\<open>float(box.conf[0])\<close> and the corners
  \<^verbatim>\<open>box.xyxy[0]\<close>. A detector output is a list of results, each with an optional list of
  boxes.
\<close>

record yolo_box =
  box_class_name :: string
  box_conf :: real
  box_x1 :: real
  box_y1 :: real
  box_x2 :: real
  box_y2 :: real

type_synonym yolo_results = "yolo_box list option list"

record product =
  p_class :: string
  p_confidence :: real
  p_bbox :: "real \<times> real \<times> real \<times> real"
  p_area :: real

record yolo_dict =
  products_detected :: "product list"
  product_count :: nat
  confidence_scores :: "real list"
  detection_areas :: "real list"
  coverage_ratio :: real
  total_detection_area :: "real option"
  yolo_available :: bool

text \<open>\<^verbatim>\<open>str.lower\<close> on ASCII letters.\<close>

definition lower_char :: "char \<Rightarrow> char" where
  "lower_char c =
     (let n = (of_char c :: nat) in if 65 \<le> n \<and> n \<le> 90 then char_of (n + 32) else c)"

definition lower :: "string \<Rightarrow> string" where
  "lower s = map lower_char s"

text \<open>The test on one box inside the loops of \<^verbatim>\<open>_perform_yolo_detection\<close>.\<close>

definition is_product_detection ::
    "'p yolo_detection_params_scheme \<Rightarrow> string set \<Rightarrow> yolo_box \<Rightarrow> bool" where
  "is_product_detection params classes box \<longleftrightarrow>
     lower (box_class_name box) \<in> classes \<and> box_conf box > yolo_confidence_threshold params"

definition box_area :: "yolo_box \<Rightarrow> real" where
  "box_area box = (box_x2 box - box_x1 box) * (box_y2 box - box_y1 box)"

definition product_of_box :: "yolo_box \<Rightarrow> product" where
  "product_of_box box =
     \<lparr> p_class = box_class_name box, p_confidence = box_conf box,
       p_bbox = (box_x1 box, box_y1 box, box_x2 box, box_y2 box),
       p_area = box_area box \<rparr>"

text \<open>The inner loop \<^verbatim>\<open>for box in result.boxes\<close> and the outer loop
  \<^verbatim>\<open>for result in results\<close>, on the three accumulated lists.\<close>

fun collect_boxes ::
    "'p yolo_detection_params_scheme \<Rightarrow> string set \<Rightarrow> yolo_box list \<Rightarrow>
     product list \<times> real list \<times> real list \<Rightarrow> product list \<times> real list \<times> real list" where
  "collect_boxes params classes [] acc = acc"
| "collect_boxes params classes (box # boxes) (prods, confs, areas) =
     (if is_product_detection params classes box then
        collect_boxes params classes boxes
          (prods @ [product_of_box box], confs @ [box_conf box], areas @ [box_area box])
      else collect_boxes params classes boxes (prods, confs, areas))"

fun collect_results ::
    "'p yolo_detection_params_scheme \<Rightarrow> string set \<Rightarrow> yolo_results \<Rightarrow>
     product list \<times> real list \<times> real list \<Rightarrow> product list \<times> real list \<times> real list" where
  "collect_results params classes [] acc = acc"
| "collect_results params classes (res # results) acc =
     (case res of
        None \<Rightarrow> collect_results params classes results acc
      | Some boxes \<Rightarrow>
          collect_results params classes results (collect_boxes params classes boxes acc))"

definition yolo_unavailable :: yolo_dict where
  "yolo_unavailable =
     \<lparr> products_detected = [], product_count = 0, confidence_scores = [],
       detection_areas = [], coverage_ratio = 0.0, total_detection_area = None,
       yolo_available = False \<rparr>"

text \<open>
  \<^verbatim>\<open>YOLOv8mShelfDetector._perform_yolo_detection\<close>. \<open>model\<close> is \<^verbatim>\<open>self.yolo_model\<close>: absent,
  or a function of the region and the \<^verbatim>\<open>conf\<close> argument that may raise. The inference
  call and the loops that read the boxes are inside one \<^verbatim>\<open>try\<close>, so an exception raised
  anywhere there is an \<open>Inl\<close> of the model; every exception is caught and turns into the
  unavailable result (its \<^verbatim>\<open>error\<close> text is not kept).
\<close>

definition perform_yolo_detection ::
    "(image \<Rightarrow> real \<Rightarrow> py_error + yolo_results) option \<Rightarrow>
     'p yolo_detection_params_scheme \<Rightarrow> string set \<Rightarrow> image \<Rightarrow> yolo_dict" where
  "perform_yolo_detection model params classes im =
     (case model of
        None \<Rightarrow> yolo_unavailable
      | Some run_model \<Rightarrow>
          (case run_model im (yolo_confidence_threshold params) of
             Inl e \<Rightarrow> yolo_unavailable
           | Inr results \<Rightarrow>
               (let (prods, confs, areas) = collect_results params classes results ([], [], []);
                    roi_area = height im * width im;
                    total_area = sum_list areas;
                    coverage =
                      (if roi_area > 0 then min 1.0 (total_area / real roi_area) else 0.0)
                in \<lparr> products_detected = prods, product_count = length prods,
                     confidence_scores = confs, detection_areas = areas,
                     coverage_ratio = coverage, total_detection_area = Some total_area,
                     yolo_available = True \<rparr>)))"

subsection \<open>The confidence aggregator\<close>

record yolo_analysis = analysis +
  yolo :: yolo_dict

text \<open>
  \<^verbatim>\<open>YOLOv8mShelfDetector._calculate_yolo_enhanced_confidence\<close>, in the same three
  stages: the indicator counts \<^verbatim>\<open>(primary_count, yolo_count, supermarket_count)\<close>, the
  scoring, and the sensitivity adjustment.
\<close>

definition yolo8m_indicator_counts ::
    "'p yolo_detection_params_scheme \<Rightarrow> yolo_analysis \<Rightarrow> nat \<times> nat \<times> nat" where
  "yolo8m_indicator_counts params a =
    (let has_few_objects = meaningful_object_count (objects a) \<le> 1;
         low_color_diversity = \<not> has_diverse_colors (color a);
         low_texture = \<not> has_texture (texture a);
         minimal_structure = \<not> has_structure (structure_a a);
         yolo_no_products = (product_count (yolo a) = 0);
         yolo_low_coverage = coverage_ratio (yolo a) < 0.12;
         yolo_avail = yolo_available (yolo a);
         supermarket_empty_indicators =
           (if supermarket_mode params then
              [total_variance (uniformity a) < lighting_variance_threshold params
                 \<and> meaningful_object_count (objects a) = 0,
               uniformity_score (uniformity a) > 0.70,
               edge_density (objects a) < edge_density_threshold params]
            else []);
         primary_empty_indicators =
           [is_uniform (uniformity a), has_few_objects, low_color_diversity,
            low_texture, minimal_structure];
         yolo_empty_indicators =
           (if yolo_avail then [yolo_no_products, yolo_low_coverage] else [])
     in (sum_bools primary_empty_indicators, sum_bools yolo_empty_indicators,
         sum_bools supermarket_empty_indicators))"

definition yolo8m_weighted_scoring ::
    "yolo_analysis \<Rightarrow> nat \<Rightarrow> nat \<Rightarrow> nat \<Rightarrow> real \<times> bool" where
  "yolo8m_weighted_scoring a primary_count yolo_count supermarket_count =
     (if yolo_available (yolo a) then
        (if yolo_count \<ge> 2 \<and> primary_count \<ge> 2 then
           (0.90 + min 0.10 (real primary_count * 0.02), True)
         else if yolo_count \<ge> 2 \<and> primary_count \<ge> 1 then
           (0.82 + real primary_count * 0.05 + real supermarket_count * 0.03, True)
         else if yolo_count \<ge> 1 \<and> primary_count \<ge> 2 then
           (0.72 + real primary_count * 0.05 + real supermarket_count * 0.04, True)
         else if primary_count \<ge> 3 \<and> supermarket_count \<ge> 1 then
           (0.68 + real (primary_count - 3) * 0.05, True)
         else if yolo_count \<ge> 1 \<and> primary_count \<ge> 1 then
           (0.62 + real primary_count * 0.04 + real supermarket_count * 0.03, True)
         else if primary_count \<ge> 3 then
           (0.58 + real (primary_count - 3) * 0.04 + real supermarket_count * 0.03, True)
         else
           (let yolo_fullness = coverage_ratio (yolo a) * 2.5;
                yolo_product_boost = min 0.4 (real (product_count (yolo a)) * 0.12);
                traditional_fullness =
                  object_density (objects a) * 0.35 +
                  color_richness (color a) * 0.25 +
                  texture_score (texture a) * 0.20 +
                  structure_score (structure_a a) / 5.0 * 0.15;
                fullness =
                  min 1.0 (traditional_fullness * 0.4 + yolo_fullness * 0.5
                           + yolo_product_boost)
            in (max 0.08 (1.0 - fullness * 1.1), False)))
      else
        (let total_empty_indicators = primary_count + supermarket_count
         in if total_empty_indicators \<ge> 4 then
              (0.82 + min 0.15 (real (total_empty_indicators - 4) * 0.04), True)
            else if total_empty_indicators \<ge> 3 then
              (0.68 + real (total_empty_indicators - 3) * 0.10, True)
            else if total_empty_indicators \<ge> 2 then
              (0.55 + real (total_empty_indicators - 2) * 0.10, True)
            else
              (let traditional_fullness =
                     object_density (objects a) * 0.4 +
                     color_richness (color a) * 0.3 +
                     texture_score (texture a) * 0.2 +
                     structure_score (structure_a a) / 5.0 * 0.1
               in (max 0.10 (1.0 - traditional_fullness * 1.05), False))))"

definition yolo8m_sensitivity_adjustment ::
    "'p yolo_detection_params_scheme \<Rightarrow> real \<Rightarrow> real \<Rightarrow> bool \<Rightarrow> real" where
  "yolo8m_sensitivity_adjustment params sens conf emp =
     (if emp then
        (let sensitivity_boost = 1.0 + sens * 0.2;
             empty_boost = empty_confidence_boost params
         in min 1.0 (conf * sensitivity_boost + empty_boost))
      else max 0.0 (conf * (2.0 - sens)))"

definition calculate_yolo_enhanced_confidence ::
    "'p yolo_detection_params_scheme \<Rightarrow> real \<Rightarrow> yolo_analysis \<Rightarrow> confidence_data" where
  "calculate_yolo_enhanced_confidence params sens a =
    (let (primary_count, yolo_count, supermarket_count) = yolo8m_indicator_counts params a;
         (conf, emp) = yolo8m_weighted_scoring a primary_count yolo_count supermarket_count;
         conf' = yolo8m_sensitivity_adjustment params sens conf emp
     in \<lparr> is_empty = emp,
          empty_confidence = conf',
          fullness_score = (if emp then 1.0 - conf' else conf'),
          method_scores =
            [(''uniformity_analysis'', uniformity_score (uniformity a)),
             (''object_detection'', object_density (objects a)),
             (''color_analysis'', color_richness (color a)),
             (''texture_analysis'', texture_score (texture a)),
             (''structure_analysis'', min 1.0 (structure_score (structure_a a) / 5.0)),
             (''yolo_detection'',
                if yolo_available (yolo a) then coverage_ratio (yolo a) else 0.0)] \<rparr>)"

subsection \<open>Labels, alert policy and entry points\<close>

text \<open>\<^verbatim>\<open>YOLOv8mShelfDetector._determine_alert_level\<close>.\<close>

definition yolo8m_determine_alert_level :: "real \<Rightarrow> bool \<Rightarrow> string" where
  "yolo8m_determine_alert_level confidence emp =
     (if \<not> emp then ''LOW''
      else if confidence \<ge> 0.85 then ''CRITICAL''
      else if confidence \<ge> 0.70 then ''HIGH''
      else if confidence \<ge> 0.55 then ''MEDIUM''
      else ''LOW'')"

text \<open>\<^verbatim>\<open>YOLOv8mShelfDetector._should_trigger_alert\<close>; the cooldown clock is read with
  \<^verbatim>\<open>self.alert_cooldown.get(shelf_name, 0)\<close>.\<close>

definition yolo8m_should_trigger_alert ::
    "string \<Rightarrow> confidence_data \<Rightarrow> real \<Rightarrow> 'h detector_state \<Rightarrow> bool \<times> 'h detector_state" where
  "yolo8m_should_trigger_alert shelf_name cd timestamp st =
     (if \<not> is_empty cd then (False, st)
      else if timestamp - (case alert_cooldown st shelf_name of None \<Rightarrow> 0 | Some c \<Rightarrow> c)
                < yolo8m_cooldown_time then (False, st)
      else if empty_confidence cd \<ge> 0.65 then
        (True, st\<lparr>alert_cooldown := (alert_cooldown st)(shelf_name \<mapsto> timestamp)\<rparr>)
      else (False, st))"

text \<open>\<^verbatim>\<open>YOLOv8mShelfDetector.update_sensitivity\<close>.\<close>

definition yolo8m_update_sensitivity :: "real \<Rightarrow> 'h detector_state \<Rightarrow> 'h detector_state" where
  "yolo8m_update_sensitivity new_sensitivity st =
     st\<lparr>sensitivity := max 0.1 (min 0.9 new_sensitivity)\<rparr>"

text \<open>\<^verbatim>\<open>YOLOv8mShelfDetector._create_error_result\<close>.\<close>

definition yolo8m_create_error_result :: "string \<Rightarrow> string \<Rightarrow> result" where
  "yolo8m_create_error_result error_message shelf_name =
     \<lparr> r_is_empty = False, r_confidence = 0.0, r_fullness_score = Some 0.0,
       r_should_alert = False, r_alert_level = Some ''LOW'',
       r_visual_state = ''UNCERTAIN'', r_stability = None,
       r_detection_strength = None, r_method_scores = [],
       r_frame_count = None, r_timestamp = None,
       r_trend = Some ''UNKNOWN'', r_reason = Some error_message \<rparr>"

text \<open>
  The library functions that \<^verbatim>\<open>YOLOv8mShelfDetector\<close> calls: the detector model, the
  OpenCV-based extractor methods, and \<^verbatim>\<open>np.polyfit(range(len(ys)), ys, 1)[0]\<close>.
\<close>

record yolo_backend =
  yolo_model :: "(image \<Rightarrow> real \<Rightarrow> py_error + yolo_results) option"
  analyze_uniformity :: "image \<Rightarrow> py_error + uniformity_dict"
  advanced_color_analysis :: "image \<Rightarrow> py_error + color_dict"
  analyze_texture :: "image \<Rightarrow> py_error + texture_dict"
  analyze_structure :: "image \<Rightarrow> py_error + structure_dict"
  detect_enhanced_objects :: "image \<Rightarrow> yolo_dict \<Rightarrow> py_error + objects_dict"
  polyfit_slope :: "real list \<Rightarrow> real"

text \<open>\<^verbatim>\<open>YOLOv8mShelfDetector._perform_yolo_enhanced_analysis\<close>, in the source's order of
  calls.\<close>

definition perform_yolo_enhanced_analysis ::
    "yolo_backend \<Rightarrow> image \<Rightarrow> py_error + yolo_analysis" where
  "perform_yolo_enhanced_analysis bk im =
     (case analyze_uniformity bk im of Inl e \<Rightarrow> Inl e | Inr uniformity_analysis \<Rightarrow>
      case advanced_color_analysis bk im of Inl e \<Rightarrow> Inl e | Inr color_analysis \<Rightarrow>
      case analyze_texture bk im of Inl e \<Rightarrow> Inl e | Inr texture_analysis \<Rightarrow>
      case analyze_structure bk im of Inl e \<Rightarrow> Inl e | Inr structure_analysis \<Rightarrow>
      (let yolo_analysis =
             perform_yolo_detection (yolo_model bk) yolo8m_detection_params product_classes im
       in case detect_enhanced_objects bk im yolo_analysis of Inl e \<Rightarrow> Inl e
          | Inr object_analysis \<Rightarrow>
              Inr \<lparr> uniformity = uniformity_analysis, objects = object_analysis,
                    color = color_analysis, texture = texture_analysis,
                    structure_a = structure_analysis, yolo = yolo_analysis \<rparr>))"

text \<open>\<^verbatim>\<open>YOLOv8mShelfDetector._calculate_trend\<close>.\<close>

definition calculate_trend ::
    "yolo_backend \<Rightarrow> detection_record detector_state \<Rightarrow> string \<Rightarrow> string" where
  "calculate_trend bk st shelf_name =
     (case detection_history st shelf_name of
        None \<Rightarrow> ''UNKNOWN''
      | Some history \<Rightarrow>
          if length history < 3 then ''UNKNOWN''
          else
            (let confidences = map h_empty_confidence (last_n 5 history)
             in if length confidences \<ge> 3 then
                  (let trend_slope = polyfit_slope bk confidences
                   in if trend_slope > 0.1 then ''EMPTYING''
                      else if trend_slope < - 0.1 then ''FILLING''
                      else ''STABLE'')
                else ''UNKNOWN''))"

text \<open>\<^verbatim>\<open>YOLOv8mShelfDetector.analyze_shelf_region\<close>.\<close>

definition yolo8m_analyze_shelf_region ::
    "yolo_backend \<Rightarrow> roi \<Rightarrow> string \<Rightarrow> real option \<Rightarrow> real \<Rightarrow>
     detection_record detector_state \<Rightarrow>
     (py_error + result) \<times> detection_record detector_state" where
  "yolo8m_analyze_shelf_region bk roi shelf_name timestamp_arg now st =
     (let timestamp = (case timestamp_arg of None \<Rightarrow> now | Some t \<Rightarrow> t)
      in case roi of
           None \<Rightarrow> (Inr (yolo8m_create_error_result ''No image data'' shelf_name), st)
         | Some im \<Rightarrow>
             if roi_size im = 0 then
               (Inr (yolo8m_create_error_result ''No image data'' shelf_name), st)
             else if height im < 50 \<or> width im < 50 then
               (Inr (yolo8m_create_error_result ''Region too small for analysis''
                       shelf_name), st)
             else
               (let st1 = init_section shelf_name (st\<lparr>frame_count := frame_count st + 1\<rparr>)
                in case perform_yolo_enhanced_analysis bk im of
                     Inl e \<Rightarrow> (Inl e, st1)
                   | Inr analysis_results \<Rightarrow>
                       (let cd = calculate_yolo_enhanced_confidence yolo8m_detection_params
                                   (sensitivity st1) analysis_results;
                            visual_state =
                              determine_visual_state (empty_confidence cd) (is_empty cd);
                            alert_level =
                              yolo8m_determine_alert_level (empty_confidence cd) (is_empty cd);
                            detection_rec =
                              \<lparr> h_timestamp = timestamp, h_is_empty = is_empty cd,
                                h_empty_confidence = empty_confidence cd,
                                h_fullness_score = fullness_score cd,
                                h_visual_state = visual_state, h_alert_level = alert_level,
                                h_frame_number = frame_count st1 \<rparr>
                        in case record_detection yolo8m_history_length shelf_name
                                  detection_rec st1 of
                             Inl e \<Rightarrow> (Inl e, st1)
                           | Inr st2 \<Rightarrow>
                               (let (should_alert, st3) =
                                      yolo8m_should_trigger_alert shelf_name cd timestamp st2
                                in (Inr \<lparr> r_is_empty = is_empty cd,
                                          r_confidence = empty_confidence cd,
                                          r_fullness_score = Some (fullness_score cd),
                                          r_should_alert = should_alert,
                                          r_alert_level = Some alert_level,
                                          r_visual_state = visual_state,
                                          r_stability = None,
                                          r_detection_strength = None,
                                          r_method_scores = method_scores cd,
                                          r_frame_count = None,
                                          r_timestamp = None,
                                          r_trend = Some (calculate_trend bk st3 shelf_name),
                                          r_reason = None \<rparr>,
                                    st3)))))"

section \<open>EnhancedShelfDetector\<close>

definition enhanced_history_length :: nat where
  "enhanced_history_length = 8"

definition enhanced_cooldown_time :: real where
  "enhanced_cooldown_time = 2.0"

text \<open>The method scores of \<^verbatim>\<open>_perform_enhanced_analysis\<close> (OpenCV) that the class reads.\<close>

record enhanced_analysis =
  color_score :: real
  edge_score :: real
  e_texture_score :: real
  brightness_score :: real
  contour_score :: real

text \<open>A history record of \<^verbatim>\<open>EnhancedShelfDetector\<close>, without the copy \<^verbatim>\<open>methods\<close> of the
  extractor output.\<close>

record enhanced_record =
  eh_timestamp :: real
  eh_is_empty :: bool
  eh_confidence :: real
  eh_visual_state :: string

text \<open>\<^verbatim>\<open>EnhancedShelfDetector._calculate_enhanced_confidence\<close>, returning
  \<^verbatim>\<open>(empty_confidence, is_empty, visual_state)\<close>.\<close>

definition calculate_enhanced_confidence ::
    "real \<Rightarrow> enhanced_analysis \<Rightarrow> real \<times> bool \<times> string" where
  "calculate_enhanced_confidence sens a =
     (let fullness_confidence =
            0.25 * color_score a + 0.30 * edge_score a + 0.20 * e_texture_score a +
            0.15 * brightness_score a + 0.10 * contour_score a;
          adjusted_confidence = fullness_confidence * (2.0 - sens);
          emp = adjusted_confidence < 0.5;
          conf = (if emp then 1.0 - adjusted_confidence else adjusted_confidence);
          visual_state =
            (if emp then
               (if conf > 0.8 then ''empty_high''
                else if conf > 0.6 then ''empty_medium''
                else ''empty_low'')
             else ''full'')
      in (conf, emp, visual_state))"

text \<open>\<^verbatim>\<open>EnhancedShelfDetector._calculate_stability\<close>.\<close>

definition calculate_stability :: "enhanced_record detector_state \<Rightarrow> string \<Rightarrow> nat" where
  "calculate_stability st shelf_name =
     (case detection_history st shelf_name of
        None \<Rightarrow> 0
      | Some history \<Rightarrow>
          if length history < 3 then length history
          else
            (let recent_states = map eh_is_empty (last_n 5 history);
                 consistency =
                   length (filter (\<lambda>state. state = last recent_states) recent_states)
             in min 5 consistency))"

text \<open>\<^verbatim>\<open>EnhancedShelfDetector._should_alert\<close>.\<close>

definition enhanced_should_alert ::
    "string \<Rightarrow> real \<Rightarrow> bool \<Rightarrow> real \<Rightarrow> nat \<Rightarrow> 'h detector_state \<Rightarrow>
     (py_error + bool) \<times> 'h detector_state" where
  "enhanced_should_alert shelf_name timestamp emp confidence stability st =
     (if \<not> emp then (Inr False, st)
      else if confidence < 0.6 then (Inr False, st)
      else if stability < 3 then (Inr False, st)
      else case alert_cooldown st shelf_name of
             None \<Rightarrow> (Inl KeyError, st)
           | Some c \<Rightarrow>
               if timestamp - c < enhanced_cooldown_time then (Inr False, st)
               else (Inr True,
                     st\<lparr>alert_cooldown := (alert_cooldown st)(shelf_name \<mapsto> timestamp)\<rparr>))"

text \<open>\<^verbatim>\<open>EnhancedShelfDetector.update_sensitivity\<close>.\<close>

definition enhanced_update_sensitivity :: "real \<Rightarrow> 'h detector_state \<Rightarrow> 'h detector_state" where
  "enhanced_update_sensitivity new_sensitivity st =
     st\<lparr>sensitivity := max 0.1 (min 1.0 new_sensitivity)\<rparr>"

text \<open>\<^verbatim>\<open>EnhancedShelfDetector._create_result\<close>.\<close>

definition enhanced_create_result ::
    "bool \<Rightarrow> real \<Rightarrow> string \<Rightarrow> string \<Rightarrow> string \<Rightarrow> real \<Rightarrow> 'h detector_state \<Rightarrow> result" where
  "enhanced_create_result emp confidence reason shelf_name visual_state now st =
     \<lparr> r_is_empty = emp, r_confidence = confidence, r_fullness_score = None,
       r_should_alert = False, r_alert_level = None,
       r_visual_state = visual_state, r_stability = Some 0,
       r_detection_strength = None,
       r_method_scores =
         [(''color_analysis'', 0.0), (''edge_analysis'', 0.0), (''texture_analysis'', 0.0),
          (''contour_analysis'', 0.0), (''brightness_analysis'', 0.0)],
       r_frame_count = Some (frame_count st), r_timestamp = Some now,
       r_trend = None, r_reason = Some reason \<rparr>"

text \<open>\<^verbatim>\<open>EnhancedShelfDetector.analyze_shelf_region\<close>; \<open>backend\<close> stands for
  \<^verbatim>\<open>_perform_enhanced_analysis\<close>.\<close>

definition enhanced_analyze_shelf_region ::
    "(image \<Rightarrow> py_error + enhanced_analysis) \<Rightarrow> roi \<Rightarrow> string \<Rightarrow> real option \<Rightarrow> real \<Rightarrow>
     enhanced_record detector_state \<Rightarrow>
     (py_error + result) \<times> enhanced_record detector_state" where
  "enhanced_analyze_shelf_region backend roi shelf_name timestamp_arg now st =
     (let timestamp = (case timestamp_arg of None \<Rightarrow> now | Some t \<Rightarrow> t)
      in case roi of
           None \<Rightarrow>
             (Inr (enhanced_create_result True 1.0 ''No image data'' shelf_name
                     ''empty_high'' now st), st)
         | Some im \<Rightarrow>
             if roi_size im = 0 then
               (Inr (enhanced_create_result True 1.0 ''No image data'' shelf_name
                       ''empty_high'' now st), st)
             else if height im < 30 \<or> width im < 30 then
               (Inr (enhanced_create_result True 1.0 ''Region too small'' shelf_name
                       ''empty_high'' now st), st)
             else
               (let st1 = init_section shelf_name (st\<lparr>frame_count := frame_count st + 1\<rparr>)
                in case backend im of
                     Inl e \<Rightarrow> (Inl e, st1)
                   | Inr analysis_results \<Rightarrow>
                       (let (confidence, emp, visual_state) =
                              calculate_enhanced_confidence (sensitivity st1) analysis_results;
                            detection_rec =
                              \<lparr> eh_timestamp = timestamp, eh_is_empty = emp,
                                eh_confidence = confidence,
                                eh_visual_state = visual_state \<rparr>
                        in case record_detection enhanced_history_length shelf_name
                                  detection_rec st1 of
                             Inl e \<Rightarrow> (Inl e, st1)
                           | Inr st2 \<Rightarrow>
                               (let stability = calculate_stability st2 shelf_name
                                in case enhanced_should_alert shelf_name timestamp emp
                                          confidence stability st2 of
                                     (Inl e, st3) \<Rightarrow> (Inl e, st3)
                                   | (Inr should_alert, st3) \<Rightarrow>
                                       (Inr \<lparr> r_is_empty = emp,
                                              r_confidence = confidence,
                                              r_fullness_score = None,
                                              r_should_alert = should_alert,
                                              r_alert_level = None,
                                              r_visual_state = visual_state,
                                              r_stability = Some stability,
                                              r_detection_strength = None,
                                              r_method_scores =
                                                [(''color_analysis'', color_score analysis_results),
                                                 (''edge_analysis'', edge_score analysis_results),
                                                 (''texture_analysis'',
                                                    e_texture_score analysis_results),
                                                 (''contour_analysis'',
                                                    contour_score analysis_results),
                                                 (''brightness_analysis'',
                                                    brightness_score analysis_results)],
                                              r_frame_count = Some (frame_count st3),
                                              r_timestamp = Some timestamp,
                                              r_trend = None,
                                              r_reason = None \<rparr>,
                                        st3)))))"

section \<open>Call sequences\<close>

text \<open>
  A client drives a detector instance through its two public methods. An
  \<open>Analyze\<close> call carries the arguments of \<^verbatim>\<open>analyze_shelf_region\<close> (the optional
  \<^verbatim>\<open>timestamp\<close> argument) and the reading of \<^verbatim>\<open>time.time()\<close> during the call.
\<close>

datatype call =
  Analyze roi string "real option" real
| Update_sensitivity real

fun call_section :: "call \<Rightarrow> string option" where
  "call_section (Analyze roi shelf_name timestamp_arg now) = Some shelf_name"
| "call_section (Update_sensitivity v) = None"

text \<open>The timestamp an \<open>Analyze\<close> call works with: the supplied one, else the clock.\<close>

fun call_time :: "call \<Rightarrow> real" where
  "call_time (Analyze roi shelf_name timestamp_arg now) =
     (case timestamp_arg of None \<Rightarrow> now | Some t \<Rightarrow> t)"
| "call_time (Update_sensitivity v) = 0"

fun improved_step ::
    "(image \<Rightarrow> py_error + analysis) \<Rightarrow> call \<Rightarrow> detection_record detector_state \<Rightarrow>
     (py_error + result) option \<times> detection_record detector_state" where
  "improved_step backend (Analyze roi shelf_name timestamp_arg now) st =
     (let (r, st') = improved_analyze_shelf_region backend roi shelf_name timestamp_arg now st
      in (Some r, st'))"
| "improved_step backend (Update_sensitivity v) st = (None, improved_update_sensitivity v st)"

fun yolo8m_step ::
    "yolo_backend \<Rightarrow> call \<Rightarrow> detection_record detector_state \<Rightarrow>
     (py_error + result) option \<times> detection_record detector_state" where
  "yolo8m_step bk (Analyze roi shelf_name timestamp_arg now) st =
     (let (r, st') = yolo8m_analyze_shelf_region bk roi shelf_name timestamp_arg now st
      in (Some r, st'))"
| "yolo8m_step bk (Update_sensitivity v) st = (None, yolo8m_update_sensitivity v st)"

fun enhanced_step ::
    "(image \<Rightarrow> py_error + enhanced_analysis) \<Rightarrow> call \<Rightarrow> enhanced_record detector_state \<Rightarrow>
     (py_error + result) option \<times> enhanced_record detector_state" where
  "enhanced_step backend (Analyze roi shelf_name timestamp_arg now) st =
     (let (r, st') = enhanced_analyze_shelf_region backend roi shelf_name timestamp_arg now st
      in (Some r, st'))"
| "enhanced_step backend (Update_sensitivity v) st = (None, enhanced_update_sensitivity v st)"

text \<open>Running a list of calls in order: the outcomes, one per call, and the final state.\<close>

fun run :: "(call \<Rightarrow> 's \<Rightarrow> 'o \<times> 's) \<Rightarrow> call list \<Rightarrow> 's \<Rightarrow> 'o list \<times> 's" where
  "run step [] st = ([], st)"
| "run step (c # cs) st =
     (let (out, st') = step c st; (outs, st'') = run step cs st' in (out # outs, st''))"

text \<open>An outcome in which \<^verbatim>\<open>analyze_shelf_region\<close> returned \<^verbatim>\<open>should_alert = True\<close>.\<close>

fun alerted :: "(py_error + result) option \<Rightarrow> bool" where
  "alerted (Some (Inr r)) = r_should_alert r"
| "alerted _ = False"

section \<open>Notions used to state the properties\<close>

text \<open>A region that \<^verbatim>\<open>analyze_shelf_region\<close> turns away: missing, of size zero, or with a
  side below the minimum \<open>m\<close>.\<close>

definition rejected :: "nat \<Rightarrow> roi \<Rightarrow> bool" where
  "rejected m roi =
     (case roi of None \<Rightarrow> True | Some im \<Rightarrow> roi_size im = 0 \<or> height im < m \<or> width im < m)"

text \<open>
  The consistency score in the words of the specification: among the most recent at most
  five \<^verbatim>\<open>is_empty\<close> values, the number equal to the most recent one, capped at five.
\<close>

definition spec_consistency :: "bool list \<Rightarrow> nat" where
  "spec_consistency states =
     min 5 (length (filter (\<lambda>s. s = last states) (last_n 5 states)))"

text \<open>Clamping into an interval, as the specification words it.\<close>

definition clamp :: "real \<Rightarrow> real \<Rightarrow> real \<Rightarrow> real" where
  "clamp lo hi v = (if v < lo then lo else if v > hi then hi else v)"

text \<open>The cooldown clock of a section, and the state invariant that a section with a
  clock also has a history.\<close>

definition clock :: "'h detector_state \<Rightarrow> string \<Rightarrow> real" where
  "clock st shelf_name = (case alert_cooldown st shelf_name of None \<Rightarrow> 0 | Some c \<Rightarrow> c)"

definition clocks_have_history :: "'h detector_state \<Rightarrow> bool" where
  "clocks_have_history st \<longleftrightarrow> dom (alert_cooldown st) \<subseteq> dom (detection_history st)"

definition history_bounded :: "nat \<Rightarrow> 'h detector_state \<Rightarrow> bool" where
  "history_bounded n st \<longleftrightarrow>
     (\<forall>shelf_name history. detection_history st shelf_name = Some history \<longrightarrow> length history \<le> n)"

text \<open>The \<^verbatim>\<open>stability\<close> entry of an outcome, when the call returned a result.\<close>

fun outcome_stability :: "(py_error + result) option \<Rightarrow> nat option" where
  "outcome_stability (Some (Inr r)) = r_stability r"
| "outcome_stability _ = None"

text \<open>All boxes of a detector output, in the order in which the loops visit them.\<close>

definition all_boxes :: "yolo_results \<Rightarrow> yolo_box list" where
  "all_boxes results =
     concat (map (\<lambda>res. case res of None \<Rightarrow> [] | Some boxes \<Rightarrow> boxes) results)"

section \<open>Notions used in the proofs\<close>

text \<open>The history of a section before a call; a section not yet seen has none.\<close>

definition old_history :: "'h detector_state \<Rightarrow> string \<Rightarrow> 'h list" where
  "old_history st shelf_name =
     (case detection_history st shelf_name of None \<Rightarrow> [] | Some history \<Rightarrow> history)"

text \<open>The state after the frame counter is advanced and the section is created on first
  sight.\<close>

definition entered :: "string \<Rightarrow> 'h detector_state \<Rightarrow> 'h detector_state" where
  "entered shelf_name st = init_section shelf_name (st\<lparr>frame_count := frame_count st + 1\<rparr>)"

text \<open>The state after the bounded append of a record to the section's history.\<close>

definition recorded :: "nat \<Rightarrow> string \<Rightarrow> 'h \<Rightarrow> 'h detector_state \<Rightarrow> 'h detector_state" where
  "recorded n shelf_name rec st =
     (entered shelf_name st)
       \<lparr>detection_history :=
          (detection_history st)
            (shelf_name \<mapsto> append_bounded n rec (old_history st shelf_name))\<rparr>"

text \<open>The state after an alert has set the section's cooldown clock.\<close>

definition fired :: "string \<Rightarrow> real \<Rightarrow> 'h detector_state \<Rightarrow> 'h detector_state" where
  "fired shelf_name t st = st\<lparr>alert_cooldown := (alert_cooldown st)(shelf_name \<mapsto> t)\<rparr>"

text \<open>
  The ways one \<^verbatim>\<open>analyze_shelf_region\<close> call can change the state: not at all (input
  rejected), up to the creation of the section (the extractors raise), up to the append
  (no alert), or up to the update of the cooldown clock, which needs the clock to be at
  least \<open>cooldown\<close> before the timestamp and is the only case with an alert.
\<close>

definition analyze_effect ::
    "nat \<Rightarrow> real \<Rightarrow> string \<Rightarrow> real \<Rightarrow> 'h detector_state \<Rightarrow> bool \<Rightarrow> 'h detector_state \<Rightarrow> bool" where
  "analyze_effect n cooldown shelf_name t st alert st' \<longleftrightarrow>
     (\<not> alert \<and>
        (st' = st \<or> st' = entered shelf_name st \<or> (\<exists>rec. st' = recorded n shelf_name rec st)))
     \<or> (\<exists>rec. st' = fired shelf_name t (recorded n shelf_name rec st)
             \<and> clock (recorded n shelf_name rec st) shelf_name + cooldown \<le> t)"

text \<open>The history record that \<^verbatim>\<open>analyze_shelf_region\<close> of \<^verbatim>\<open>ImprovedYOLODetector\<close> and
  \<^verbatim>\<open>YOLOv8mShelfDetector\<close> builds, given the alert level.\<close>

definition made_record :: "real \<Rightarrow> nat \<Rightarrow> confidence_data \<Rightarrow> string \<Rightarrow> detection_record" where
  "made_record t k cd alert_level =
     \<lparr> h_timestamp = t, h_is_empty = is_empty cd,
       h_empty_confidence = empty_confidence cd,
       h_fullness_score = fullness_score cd,
       h_visual_state = determine_visual_state (empty_confidence cd) (is_empty cd),
       h_alert_level = alert_level,
       h_frame_number = k \<rparr>"

text \<open>A step function whose \<open>Analyze\<close> calls change the state in these ways and whose
  other calls leave histories and clocks alone.\<close>

definition step_effect ::
    "nat \<Rightarrow> real \<Rightarrow>
     (call \<Rightarrow> 'h detector_state \<Rightarrow> (py_error + result) option \<times> 'h detector_state) \<Rightarrow> bool" where
  "step_effect n cooldown step \<longleftrightarrow>
     (\<forall>c st out st'. step c st = (out, st') \<longrightarrow>
        (case c of
           Analyze roi shelf_name timestamp_arg now \<Rightarrow>
             analyze_effect n cooldown shelf_name (call_time c) st (alerted out) st'
         | Update_sensitivity v \<Rightarrow>
             \<not> alerted out \<and> detection_history st' = detection_history st
             \<and> alert_cooldown st' = alert_cooldown st))"

section \<open>Concrete inputs\<close>

text \<open>
  Feature dictionaries as the extractors of \<^verbatim>\<open>ImprovedYOLODetector\<close> produce them.

  A well-stocked, busy region: five meaningful objects (\<^verbatim>\<open>object_density =
  min(1, 5 * 0.2 + ...) = 1\<close>), colour variance 2400 and texture strength 24 (both at twice
  their thresholds, so the scores are clamped to 1), edge density 0.1 and 50 corners
  (\<^verbatim>\<open>structure_score = 0.1 * 10 + 50 / 20 = 3.5\<close>). No empty indicator holds.
\<close>

definition stocked_shelf_analysis :: analysis where
  "stocked_shelf_analysis =
     \<lparr> uniformity = \<lparr> total_variance = 2000, uniformity_score = 0.01, is_uniform = False \<rparr>,
       objects = \<lparr> meaningful_object_count = 5, object_density = 1.0, edge_density = 0.1 \<rparr>,
       color = \<lparr> color_richness = 1.0, has_diverse_colors = True \<rparr>,
       texture = \<lparr> texture_score = 1.0, has_texture = True \<rparr>,
       structure_a = \<lparr> structure_score = 3.5, has_structure = True \<rparr> \<rparr>"

text \<open>A borderline region: exactly three empty indicators hold (few objects, low colour
  diversity, low texture).\<close>

definition borderline_analysis :: analysis where
  "borderline_analysis =
     \<lparr> uniformity = \<lparr> total_variance = 500, uniformity_score = 0.5, is_uniform = False \<rparr>,
       objects = \<lparr> meaningful_object_count = 1, object_density = 0.3, edge_density = 0.03 \<rparr>,
       color = \<lparr> color_richness = 0.5, has_diverse_colors = False \<rparr>,
       texture = \<lparr> texture_score = 0.5, has_texture = False \<rparr>,
       structure_a = \<lparr> structure_score = 0.5, has_structure = True \<rparr> \<rparr>"

text \<open>
  Feature dictionaries of \<^verbatim>\<open>YOLOv8mShelfDetector\<close> without a detector model. The first
  is a region with two meaningful objects, diverse colours and some texture but few corners
  and lines (one empty indicator); the second extends the borderline region above.
\<close>

definition textured_shelf_analysis :: yolo_analysis where
  "textured_shelf_analysis =
     \<lparr> uniformity = \<lparr> total_variance = 2000, uniformity_score = 0.01, is_uniform = False \<rparr>,
       objects = \<lparr> meaningful_object_count = 2, object_density = 0.45, edge_density = 0.05 \<rparr>,
       color = \<lparr> color_richness = 0.125, has_diverse_colors = True \<rparr>,
       texture = \<lparr> texture_score = 0.1, has_texture = True \<rparr>,
       structure_a = \<lparr> structure_score = 0, has_structure = False \<rparr>,
       yolo = yolo_unavailable \<rparr>"

definition borderline_yolo_analysis :: yolo_analysis where
  "borderline_yolo_analysis =
     \<lparr> uniformity = \<lparr> total_variance = 500, uniformity_score = 0.5, is_uniform = False \<rparr>,
       objects = \<lparr> meaningful_object_count = 1, object_density = 0.3, edge_density = 0.03 \<rparr>,
       color = \<lparr> color_richness = 0.5, has_diverse_colors = False \<rparr>,
       texture = \<lparr> texture_score = 0.5, has_texture = False \<rparr>,
       structure_a = \<lparr> structure_score = 30, has_structure = True \<rparr>,
       yolo = yolo_unavailable \<rparr>"

text \<open>
  Stand-ins for the library code, used to run the detectors on concrete inputs. The slope
  of the least-squares line through \<open>(0, y\<^sub>0), (1, y\<^sub>1), \<dots>\<close> is what
  \<^verbatim>\<open>np.polyfit(range(len(ys)), ys, 1)[0]\<close> computes.
\<close>

definition least_squares_slope :: "real list \<Rightarrow> real" where
  "least_squares_slope ys =
     (let n = real (length ys);
          xs = map real [0..<length ys];
          sx = sum_list xs;
          sy = sum_list ys;
          sxy = sum_list (map2 (*) xs ys);
          sxx = sum_list (map (\<lambda>x. x * x) xs)
      in (n * sxy - sx * sy) / (n * sxx - sx * sx))"

text \<open>A uniform light-grey colour region of the given height and width.\<close>

definition gray_region :: "nat \<Rightarrow> nat \<Rightarrow> image" where
  "gray_region h w =
     \<lparr> height = h, width = w, channels = Some 3, pixels = replicate (h * w * 3) 240 \<rparr>"

text \<open>
  Extractor stand-ins that tell two kinds of region apart by their height. For
  \<^verbatim>\<open>ImprovedYOLODetector\<close>: the borderline features for regions at least 200 pixels high
  and the well-stocked features for smaller ones. For \<^verbatim>\<open>YOLOv8mShelfDetector\<close>, with no
  detector model: the borderline and the textured features. For
  \<^verbatim>\<open>EnhancedShelfDetector\<close>: low scores of every method for the high regions and high
  scores for the smaller ones.
\<close>

definition sample_backend :: "image \<Rightarrow> py_error + analysis" where
  "sample_backend im =
     (if height im \<ge> 200 then Inr borderline_analysis else Inr stocked_shelf_analysis)"

definition sample_yolo_features :: "image \<Rightarrow> yolo_analysis" where
  "sample_yolo_features im =
     (if height im \<ge> 200 then borderline_yolo_analysis else textured_shelf_analysis)"

definition sample_yolo_backend :: yolo_backend where
  "sample_yolo_backend =
     \<lparr> yolo_model = None,
       analyze_uniformity = (\<lambda>im. Inr (uniformity (sample_yolo_features im))),
       advanced_color_analysis = (\<lambda>im. Inr (color (sample_yolo_features im))),
       analyze_texture = (\<lambda>im. Inr (texture (sample_yolo_features im))),
       analyze_structure = (\<lambda>im. Inr (structure_a (sample_yolo_features im))),
       detect_enhanced_objects = (\<lambda>im y. Inr (objects (sample_yolo_features im))),
       polyfit_slope = least_squares_slope \<rparr>"

definition sample_enhanced_backend :: "image \<Rightarrow> py_error + enhanced_analysis" where
  "sample_enhanced_backend im =
     (if height im \<ge> 200 then
        Inr \<lparr> color_score = 0.1, edge_score = 0.1, e_texture_score = 0.1,
              brightness_score = 0.1, contour_score = 0.1 \<rparr>
      else
        Inr \<lparr> color_score = 0.9, edge_score = 0.9, e_texture_score = 0.9,
              brightness_score = 0.9, contour_score = 0.9 \<rparr>)"

text \<open>Four calls on one section, at the timestamps 0, 0.5, 10 and 12.1.\<close>

definition alert_calls :: "call list" where
  "alert_calls =
     [Analyze (Some (gray_region 250 250)) ''shelf_1'' (Some 0) 100,
      Analyze (Some (gray_region 250 250)) ''shelf_1'' (Some 0.5) 100,
      Analyze (Some (gray_region 250 250)) ''shelf_1'' (Some 10.0) 100,
      Analyze (Some (gray_region 250 250)) ''shelf_1'' (Some 12.1) 100]"

text \<open>Two calls on one section: a borderline (empty) region, then a well-stocked one.\<close>

definition mixed_calls :: "call list" where
  "mixed_calls =
     [Analyze (Some (gray_region 250 250)) ''shelf_1'' (Some 0) 100,
      Analyze (Some (gray_region 100 100)) ''shelf_1'' (Some 1) 100]"

text \<open>Fifteen calls on one section, one per second: five more than the largest history
  capacity modelled for them (10 and 8).\<close>

definition many_calls :: "call list" where
  "many_calls =
     map (\<lambda>t. Analyze (Some (gray_region 250 250)) ''shelf_1'' (Some t) 100)
       [0, 1, 2, 3, 4, 5, 6, 7, 8, 9, 10, 11, 12, 13, 14]"

text \<open>
  A detector output on a 100 by 100 region: a bottle (a product class, confidence 0.9,
  50 by 50 pixels), a person (not a product class) and a cup whose confidence 0.2 does not
  exceed the threshold 0.20; and a detector model that returns it.
\<close>

definition shelf_detections :: yolo_results where
  "shelf_detections =
     [Some [\<lparr> box_class_name = ''bottle'', box_conf = 0.9,
              box_x1 = 0, box_y1 = 0, box_x2 = 50, box_y2 = 50 \<rparr>,
            \<lparr> box_class_name = ''person'', box_conf = 0.95,
              box_x1 = 10, box_y1 = 10, box_x2 = 90, box_y2 = 90 \<rparr>,
            \<lparr> box_class_name = ''cup'', box_conf = 0.2,
              box_x1 = 60, box_y1 = 60, box_x2 = 80, box_y2 = 80 \<rparr>],
      None]"

definition shelf_model :: "image \<Rightarrow> real \<Rightarrow> py_error + yolo_results" where
  "shelf_model im threshold = Inr shelf_detections"

section \<open>Verified properties\<close>

subsection \<open>The confidence aggregators\<close>

lemma improved_scoring_empty_pos:
  assumes "improved_weighted_scoring p a n = (c, True)"
  shows "0 \<le> c"
proof -
  have k: "0 \<le> real (n - 5) * 0.03" "0 \<le> real (n - 3) * 0.1" "0 \<le> real (n - 2) * 0.1"
    by simp_all
  consider "5 \<le> n" | "\<not> 5 \<le> n" "3 \<le> n" | "\<not> 5 \<le> n" "\<not> 3 \<le> n" "2 \<le> n" | "\<not> 2 \<le> n"
    by linarith
  then show ?thesis
  proof cases
    case 1
    with assms have "c = 0.85 + min 0.15 (real (n - 5) * 0.03)"
      by (simp add: improved_weighted_scoring_def)
    with k show ?thesis by (simp add: min_def)
  next
    case 2
    with assms have "c = 0.65 + real (n - 3) * 0.1"
      by (simp add: improved_weighted_scoring_def)
    with k show ?thesis by simp
  next
    case 3
    with assms show ?thesis by (simp add: improved_weighted_scoring_def)
  next
    case 4
    with assms show ?thesis by (simp add: improved_weighted_scoring_def Let_def)
  qed
qed

lemma yolo8m_scoring_nonneg: "0 \<le> fst (yolo8m_weighted_scoring a n1 n2 n3)"
  unfolding yolo8m_weighted_scoring_def Let_def
  by (simp add: le_max_iff_disj)

lemma improved_confidence_unfold:
  assumes "improved_weighted_scoring p a (improved_empty_indicators p a) = (c, e)"
  shows "is_empty (calculate_improved_confidence p s a) = e"
    and "empty_confidence (calculate_improved_confidence p s a) =
           improved_sensitivity_adjustment s c e"
    and "fullness_score (calculate_improved_confidence p s a) =
           (if e then 1 - improved_sensitivity_adjustment s c e
            else improved_sensitivity_adjustment s c e)"
  using assms by (simp_all add: calculate_improved_confidence_def Let_def)

lemma yolo8m_confidence_unfold:
  assumes "yolo8m_indicator_counts p a = (n1, n2, n3)"
      and "yolo8m_weighted_scoring a n1 n2 n3 = (c, e)"
  shows "is_empty (calculate_yolo_enhanced_confidence p s a) = e"
    and "empty_confidence (calculate_yolo_enhanced_confidence p s a) =
           yolo8m_sensitivity_adjustment p s c e"
    and "fullness_score (calculate_yolo_enhanced_confidence p s a) =
           (if e then 1 - yolo8m_sensitivity_adjustment p s c e
            else yolo8m_sensitivity_adjustment p s c e)"
  using assms by (simp_all add: calculate_yolo_enhanced_confidence_def Let_def)

lemma dampening_antitone:
  fixes c :: real
  assumes "s1 \<le> s2" and "0 \<le> c \<or> s2 \<le> 2"
  shows "max 0 (c * (2 - s2)) \<le> max 0 (c * (2 - s1))"
proof (cases "0 \<le> c")
  case True
  with assms(1) have "c * (2 - s2) \<le> c * (2 - s1)"
    by (intro mult_left_mono) simp_all
  then show ?thesis by (simp add: max_def)
next
  case False
  with assms have "c * (2 - s2) \<le> 0" "c * (2 - s1) \<le> 0"
    by (simp_all add: mult_le_0_iff)
  then show ?thesis by (simp add: max_def)
qed

lemma boost_monotone:
  fixes c :: real
  assumes "s1 \<le> s2" and "0 \<le> c" and "0 \<le> k"
  shows "min 1 (c * (1 + s1 * k) + b) \<le> min 1 (c * (1 + s2 * k) + b)"
proof -
  from assms have "s1 * k \<le> s2 * k" by (intro mult_right_mono)
  with assms(2) have "c * (1 + s1 * k) \<le> c * (1 + s2 * k)"
    by (intro mult_left_mono) simp_all
  then show ?thesis by (simp add: min_def)
qed

lemma improved_adjustment_monotone:
  assumes "s1 \<le> s2" and "e \<longrightarrow> 0 \<le> c" and "s2 \<le> 2"
  shows "e \<longrightarrow> improved_sensitivity_adjustment s1 c e \<le> improved_sensitivity_adjustment s2 c e"
    and "\<not> e \<longrightarrow> improved_sensitivity_adjustment s2 c e \<le> improved_sensitivity_adjustment s1 c e"
  using boost_monotone [of s1 s2 c "0.3" 0] dampening_antitone [of s1 s2 c] assms
  by (simp_all add: improved_sensitivity_adjustment_def Let_def)

lemma yolo8m_adjustment_monotone:
  assumes "s1 \<le> s2" and "0 \<le> c"
  shows "e \<longrightarrow> yolo8m_sensitivity_adjustment p s1 c e \<le> yolo8m_sensitivity_adjustment p s2 c e"
    and "\<not> e \<longrightarrow> yolo8m_sensitivity_adjustment p s2 c e \<le> yolo8m_sensitivity_adjustment p s1 c e"
  using boost_monotone [of s1 s2 c "0.2" "empty_confidence_boost p"]
        dampening_antitone [of s1 s2 c] assms
  by (simp_all add: yolo8m_sensitivity_adjustment_def Let_def)

lemma improved_confidence_borderline:
  "is_empty (calculate_improved_confidence improved_detection_params s borderline_analysis)"
  "empty_confidence (calculate_improved_confidence improved_detection_params s borderline_analysis)
     = min 1 (0.65 * (1 + s * 0.3))"
proof -
  have n: "improved_empty_indicators improved_detection_params borderline_analysis = 3"
    by (simp add: improved_empty_indicators_def improved_detection_params_def
          borderline_analysis_def sum_bools_def)
  have sc: "improved_weighted_scoring improved_detection_params borderline_analysis 3
              = (0.65, True)"
    by (simp add: improved_weighted_scoring_def)
  show "is_empty (calculate_improved_confidence improved_detection_params s borderline_analysis)"
    by (simp add: improved_confidence_unfold [OF sc [folded n]])
  show "empty_confidence
          (calculate_improved_confidence improved_detection_params s borderline_analysis)
        = min 1 (0.65 * (1 + s * 0.3))"
    by (simp add: improved_confidence_unfold [OF sc [folded n]]
          improved_sensitivity_adjustment_def)
qed

lemma improved_confidence_stocked:
  "\<not> is_empty (calculate_improved_confidence improved_detection_params s stocked_shelf_analysis)"
  "empty_confidence
     (calculate_improved_confidence improved_detection_params s stocked_shelf_analysis)
     = max 0 (0.8245 * (2 - s))"
  "fullness_score
     (calculate_improved_confidence improved_detection_params s stocked_shelf_analysis)
     = max 0 (0.8245 * (2 - s))"
proof -
  have n: "improved_empty_indicators improved_detection_params stocked_shelf_analysis = 0"
    by (simp add: improved_empty_indicators_def improved_detection_params_def
          stocked_shelf_analysis_def sum_bools_def)
  have sc: "improved_weighted_scoring improved_detection_params stocked_shelf_analysis 0
              = (0.8245, False)"
    by (simp add: improved_weighted_scoring_def improved_detection_params_def
          stocked_shelf_analysis_def)
  note u = improved_confidence_unfold [OF sc [folded n]]
  show "\<not> is_empty
           (calculate_improved_confidence improved_detection_params s stocked_shelf_analysis)"
    by (simp add: u)
  show "empty_confidence
          (calculate_improved_confidence improved_detection_params s stocked_shelf_analysis)
        = max 0 (0.8245 * (2 - s))"
    by (simp add: u improved_sensitivity_adjustment_def)
  show "fullness_score
          (calculate_improved_confidence improved_detection_params s stocked_shelf_analysis)
        = max 0 (0.8245 * (2 - s))"
    by (simp add: u improved_sensitivity_adjustment_def)
qed

lemma yolo8m_confidence_borderline:
  "is_empty (calculate_yolo_enhanced_confidence yolo8m_detection_params s borderline_yolo_analysis)"
  "empty_confidence
     (calculate_yolo_enhanced_confidence yolo8m_detection_params s borderline_yolo_analysis)
     = min 1 (0.68 * (1 + s * 0.2) + 0.12)"
proof -
  have k: "yolo8m_indicator_counts yolo8m_detection_params borderline_yolo_analysis = (3, 0, 0)"
    by (simp add: yolo8m_indicator_counts_def yolo8m_detection_params_def
          borderline_yolo_analysis_def yolo_unavailable_def sum_bools_def)
  have t: "yolo8m_weighted_scoring borderline_yolo_analysis 3 0 0 = (0.68, True)"
    by (simp add: yolo8m_weighted_scoring_def borderline_yolo_analysis_def yolo_unavailable_def)
  note u = yolo8m_confidence_unfold [OF k t]
  have b: "empty_confidence_boost yolo8m_detection_params = 0.12"
    by (simp add: yolo8m_detection_params_def)
  show "is_empty
          (calculate_yolo_enhanced_confidence yolo8m_detection_params s borderline_yolo_analysis)"
    by (simp add: u)
  show "empty_confidence
          (calculate_yolo_enhanced_confidence yolo8m_detection_params s borderline_yolo_analysis)
        = min 1 (0.68 * (1 + s * 0.2) + 0.12)"
    by (simp add: u yolo8m_sensitivity_adjustment_def b)
qed

lemma yolo8m_confidence_textured:
  "\<not> is_empty
       (calculate_yolo_enhanced_confidence yolo8m_detection_params s textured_shelf_analysis)"
  "empty_confidence
     (calculate_yolo_enhanced_confidence yolo8m_detection_params s textured_shelf_analysis)
     = max 0 (0.750625 * (2 - s))"
  "fullness_score
     (calculate_yolo_enhanced_confidence yolo8m_detection_params s textured_shelf_analysis)
     = max 0 (0.750625 * (2 - s))"
proof -
  have k: "yolo8m_indicator_counts yolo8m_detection_params textured_shelf_analysis = (1, 0, 0)"
    by (simp add: yolo8m_indicator_counts_def yolo8m_detection_params_def
          textured_shelf_analysis_def yolo_unavailable_def sum_bools_def)
  have t: "yolo8m_weighted_scoring textured_shelf_analysis 1 0 0 = (0.750625, False)"
    by (simp add: yolo8m_weighted_scoring_def textured_shelf_analysis_def yolo_unavailable_def)
  note u = yolo8m_confidence_unfold [OF k t]
  show "\<not> is_empty
           (calculate_yolo_enhanced_confidence yolo8m_detection_params s textured_shelf_analysis)"
    by (simp add: u)
  show "empty_confidence
          (calculate_yolo_enhanced_confidence yolo8m_detection_params s textured_shelf_analysis)
        = max 0 (0.750625 * (2 - s))"
    by (simp add: u yolo8m_sensitivity_adjustment_def)
  show "fullness_score
          (calculate_yolo_enhanced_confidence yolo8m_detection_params s textured_shelf_analysis)
        = max 0 (0.750625 * (2 - s))"
    by (simp add: u yolo8m_sensitivity_adjustment_def)
qed

lemma improved_confidence_fullness:
  "fullness_score (calculate_improved_confidence p s a) =
     (if is_empty (calculate_improved_confidence p s a)
      then 1 - empty_confidence (calculate_improved_confidence p s a)
      else empty_confidence (calculate_improved_confidence p s a))"
  by (simp add: calculate_improved_confidence_def Let_def split_beta)

lemma yolo8m_confidence_fullness:
  "fullness_score (calculate_yolo_enhanced_confidence p s a) =
     (if is_empty (calculate_yolo_enhanced_confidence p s a)
      then 1 - empty_confidence (calculate_yolo_enhanced_confidence p s a)
      else empty_confidence (calculate_yolo_enhanced_confidence p s a))"
  by (simp add: calculate_yolo_enhanced_confidence_def Let_def split_beta)

text \<open>
  \<^bold>\<open>Claim C2\<close> (the aggregator's \<^verbatim>\<open>empty_confidence\<close> and \<^verbatim>\<open>fullness_score\<close> lie in
  \<open>[0, 1]\<close> for every stored sensitivity in \<open>[0.1, 1.0]\<close>, also on the \<^verbatim>\<open>is_empty = False\<close>
  branch) does not hold of the code. On that branch both aggregators multiply by
  \<open>2 - sensitivity\<close> and clamp with \<^verbatim>\<open>max(0.0, ...)\<close> only, while the \<^verbatim>\<open>is_empty = True\<close>
  branch clamps with \<^verbatim>\<open>min(1.0, ...)\<close>. For the well-stocked region at the default
  sensitivity 0.7, \<^verbatim>\<open>ImprovedYOLODetector\<close> returns \<open>0.8245 * 1.3 = 1.07185\<close> in both
  fields; for the textured region at sensitivity 0.3, \<^verbatim>\<open>YOLOv8mShelfDetector\<close> returns
  \<open>0.750625 * 1.7 = 1.2760625\<close>.
\<close>

theorem confidence_exceeds_one:
  "\<not> is_empty (calculate_improved_confidence improved_detection_params 0.7 stocked_shelf_analysis)
   \<and> empty_confidence
        (calculate_improved_confidence improved_detection_params 0.7 stocked_shelf_analysis)
       = 1.07185
   \<and> fullness_score
        (calculate_improved_confidence improved_detection_params 0.7 stocked_shelf_analysis)
       = 1.07185
   \<and> \<not> is_empty
        (calculate_yolo_enhanced_confidence yolo8m_detection_params 0.3 textured_shelf_analysis)
   \<and> empty_confidence
        (calculate_yolo_enhanced_confidence yolo8m_detection_params 0.3 textured_shelf_analysis)
       = 1.2760625
   \<and> fullness_score
        (calculate_yolo_enhanced_confidence yolo8m_detection_params 0.3 textured_shelf_analysis)
       = 1.2760625"
  by (simp add: improved_confidence_stocked yolo8m_confidence_textured)

text \<open>
  \<^bold>\<open>Claim C6\<close>: for fixed features, raising the sensitivity from \<open>s1\<close> to \<open>s2\<close> leaves
  \<^verbatim>\<open>is_empty\<close> unchanged, never lowers \<^verbatim>\<open>empty_confidence\<close> when \<^verbatim>\<open>is_empty\<close> is true, and
  never raises the returned confidence (which is also the \<^verbatim>\<open>fullness_score\<close>) when
  \<^verbatim>\<open>is_empty\<close> is false. This holds for both aggregators, for all parameter dictionaries
  and all sensitivities up to 2, which covers the documented range \<open>[0.1, 1.0]\<close>.
\<close>

theorem sensitivity_monotone:
  assumes "s1 \<le> s2" and "s2 \<le> 2"
  shows "is_empty (calculate_improved_confidence p s2 a)
           = is_empty (calculate_improved_confidence p s1 a)
       \<and> (is_empty (calculate_improved_confidence p s1 a) \<longrightarrow>
            empty_confidence (calculate_improved_confidence p s1 a)
              \<le> empty_confidence (calculate_improved_confidence p s2 a))
       \<and> (\<not> is_empty (calculate_improved_confidence p s1 a) \<longrightarrow>
            empty_confidence (calculate_improved_confidence p s2 a)
              \<le> empty_confidence (calculate_improved_confidence p s1 a)
          \<and> fullness_score (calculate_improved_confidence p s2 a)
              \<le> fullness_score (calculate_improved_confidence p s1 a))
       \<and> is_empty (calculate_yolo_enhanced_confidence q s2 b)
           = is_empty (calculate_yolo_enhanced_confidence q s1 b)
       \<and> (is_empty (calculate_yolo_enhanced_confidence q s1 b) \<longrightarrow>
            empty_confidence (calculate_yolo_enhanced_confidence q s1 b)
              \<le> empty_confidence (calculate_yolo_enhanced_confidence q s2 b))
       \<and> (\<not> is_empty (calculate_yolo_enhanced_confidence q s1 b) \<longrightarrow>
            empty_confidence (calculate_yolo_enhanced_confidence q s2 b)
              \<le> empty_confidence (calculate_yolo_enhanced_confidence q s1 b)
          \<and> fullness_score (calculate_yolo_enhanced_confidence q s2 b)
              \<le> fullness_score (calculate_yolo_enhanced_confidence q s1 b))"
proof -
  obtain c e where sc: "improved_weighted_scoring p a (improved_empty_indicators p a) = (c, e)"
    by (cases "improved_weighted_scoring p a (improved_empty_indicators p a)")
  have pos: "e \<longrightarrow> 0 \<le> c"
    using sc by (cases e) (auto dest: improved_scoring_empty_pos)
  note i = improved_confidence_unfold [OF sc]
  note im = improved_adjustment_monotone [OF assms(1) pos assms(2)]
  obtain n1 n2 n3 where cnt: "yolo8m_indicator_counts q b = (n1, n2, n3)"
    by (cases "yolo8m_indicator_counts q b")
  obtain c' e' where sc': "yolo8m_weighted_scoring b n1 n2 n3 = (c', e')"
    by (cases "yolo8m_weighted_scoring b n1 n2 n3")
  have pos': "0 \<le> c'"
    using yolo8m_scoring_nonneg [of b n1 n2 n3] sc' by simp
  note y = yolo8m_confidence_unfold [OF cnt sc']
  note ym = yolo8m_adjustment_monotone [OF assms(1) pos', of e' q]
  show ?thesis
    using im ym by (simp add: i y)
qed


theorem sensitivity_monotone_witness:
  "(0.3::real) \<le> 0.9 \<and> (0.9::real) \<le> 2
   \<and> is_empty (calculate_improved_confidence improved_detection_params 0.3 borderline_analysis)
   \<and> empty_confidence
        (calculate_improved_confidence improved_detection_params 0.3 borderline_analysis)
       \<le> empty_confidence
            (calculate_improved_confidence improved_detection_params 0.9 borderline_analysis)
   \<and> \<not> is_empty
        (calculate_improved_confidence improved_detection_params 0.3 stocked_shelf_analysis)
   \<and> empty_confidence
        (calculate_improved_confidence improved_detection_params 0.9 stocked_shelf_analysis)
       \<le> empty_confidence
            (calculate_improved_confidence improved_detection_params 0.3 stocked_shelf_analysis)
   \<and> is_empty
        (calculate_yolo_enhanced_confidence yolo8m_detection_params 0.3 borderline_yolo_analysis)
   \<and> empty_confidence
        (calculate_yolo_enhanced_confidence yolo8m_detection_params 0.3 borderline_yolo_analysis)
       \<le> empty_confidence
            (calculate_yolo_enhanced_confidence yolo8m_detection_params 0.9
               borderline_yolo_analysis)
   \<and> \<not> is_empty
        (calculate_yolo_enhanced_confidence yolo8m_detection_params 0.3 textured_shelf_analysis)
   \<and> empty_confidence
        (calculate_yolo_enhanced_confidence yolo8m_detection_params 0.9 textured_shelf_analysis)
       \<le> empty_confidence
            (calculate_yolo_enhanced_confidence yolo8m_detection_params 0.3
               textured_shelf_analysis)"
proof -
  have le: "(0.3::real) \<le> 0.9" "(0.9::real) \<le> 2"
    by simp_all
  note e = improved_confidence_borderline(1) [of "0.3"]
       improved_confidence_stocked(1) [of "0.3"]
       yolo8m_confidence_borderline(1) [of "0.3"]
       yolo8m_confidence_textured(1) [of "0.3"]
  from sensitivity_monotone [OF le, of improved_detection_params borderline_analysis
         yolo8m_detection_params borderline_yolo_analysis]
       sensitivity_monotone [OF le, of improved_detection_params stocked_shelf_analysis
         yolo8m_detection_params textured_shelf_analysis]
       le e
  show ?thesis by blast
qed

subsection \<open>Effects of the calls on the state\<close>

lemma append_bounded_length:
  "length history \<le> n \<Longrightarrow> length (append_bounded n rec history) \<le> n"
  by (simp add: append_bounded_def Let_def)

lemma old_history_frame_count [simp]:
  "old_history (st\<lparr>frame_count := k\<rparr>) n = old_history st n"
  by (simp add: old_history_def)

lemma init_section_fields [simp]:
  "sensitivity (init_section n st) = sensitivity st"
  "frame_count (init_section n st) = frame_count st"
  by (simp_all add: init_section_def)

lemma init_section_history:
  "detection_history (init_section n st) =
     (detection_history st)(n \<mapsto> old_history st n)"
  by (auto simp: init_section_def old_history_def fun_eq_iff split: option.splits)

lemma record_detection_init_section:
  "record_detection N n r (init_section n st) =
     Inr ((init_section n st)
            \<lparr>detection_history :=
               (detection_history st)(n \<mapsto> append_bounded N r (old_history st n))\<rparr>)"
  by (simp add: record_detection_def init_section_history)

lemma entered_fields [simp]:
  "sensitivity (entered n st) = sensitivity st"
  "frame_count (entered n st) = frame_count st + 1"
  "detection_history (entered n st) = (detection_history st)(n \<mapsto> old_history st n)"
  by (simp_all add: entered_def init_section_history)

lemma entered_clocks:
  assumes "clocks_have_history st"
  shows "clock (entered n st) m = clock st m"
    and "alert_cooldown (entered n st) m = Some c \<Longrightarrow> m \<noteq> n \<Longrightarrow>
           detection_history st m \<noteq> None"
  using assms
  by (auto simp: entered_def init_section_def clocks_have_history_def clock_def
           split: option.splits if_splits)

lemma recorded_fields [simp]:
  "sensitivity (recorded N n r st) = sensitivity st"
  "frame_count (recorded N n r st) = frame_count st + 1"
  "detection_history (recorded N n r st) =
     (detection_history st)(n \<mapsto> append_bounded N r (old_history st n))"
  "alert_cooldown (recorded N n r st) = alert_cooldown (entered n st)"
  by (simp_all add: recorded_def)

lemma recorded_clock [simp]: "clock (recorded N n r st) m = clock (entered n st) m"
  by (simp add: clock_def)

lemma fired_fields [simp]:
  "sensitivity (fired n t st) = sensitivity st"
  "frame_count (fired n t st) = frame_count st"
  "detection_history (fired n t st) = detection_history st"
  "alert_cooldown (fired n t st) = (alert_cooldown st)(n \<mapsto> t)"
  by (simp_all add: fired_def)

lemma fired_clock [simp]: "clock (fired n t st) m = (if m = n then t else clock st m)"
  by (simp add: clock_def)

lemma analyze_effect_sensitivity:
  "analyze_effect N cd n t st al st' \<Longrightarrow> sensitivity st' = sensitivity st"
  by (auto simp: analyze_effect_def)

lemma analyze_effect_frame_count:
  "analyze_effect N cd n t st al st' \<Longrightarrow> frame_count st \<le> frame_count st'"
  by (auto simp: analyze_effect_def)

lemma analyze_effect_bounded:
  assumes "analyze_effect N cd n t st al st'" and "history_bounded N st"
  shows "history_bounded N st'"
proof -
  have old: "length (old_history st n) \<le> N"
    using assms(2) by (auto simp: history_bounded_def old_history_def split: option.splits)
  have new: "length (append_bounded N r (old_history st n)) \<le> N" for r
    using old by (rule append_bounded_length)
  show ?thesis
    using assms old new
    by (auto simp: analyze_effect_def history_bounded_def split: if_splits)
qed

lemma analyze_effect_clocks:
  assumes "analyze_effect N cd n t st al st'" and "clocks_have_history st" and "0 \<le> cd"
  shows "clocks_have_history st'"
    and "clock st m \<le> clock st' m"
    and "al \<Longrightarrow> clock st n + cd \<le> t \<and> clock st' n = t"
proof -
  note c = entered_clocks [OF assms(2)]
  show "clocks_have_history st'"
    using assms(1,2) c(2)
    by (auto simp: analyze_effect_def clocks_have_history_def split: if_splits)
  show "clock st m \<le> clock st' m"
    using assms(1,3) c(1) by (auto simp: analyze_effect_def)
  show "clock st n + cd \<le> t \<and> clock st' n = t" if al
    using that assms(1) c(1) by (auto simp: analyze_effect_def)
qed

lemma improved_alert_effect:
  assumes "improved_should_trigger_alert n t cd sd al st = (out, st')"
  shows "(out = Inr True \<and> is_empty cd
            \<and> clock st n + improved_cooldown_time \<le> t \<and> st' = fired n t st)
       \<or> (out \<noteq> Inr True \<and> st' = st)"
  using assms
  by (auto simp: improved_should_trigger_alert_def clock_def fired_def
           split: if_splits option.splits)

lemma improved_analyze_rejected:
  assumes "rejected 50 roi"
  shows "\<exists>msg. improved_analyze_shelf_region bk roi n ts now st =
           (Inr (improved_create_error_result msg n now st), st)"
  using assms
  by (auto simp: improved_analyze_shelf_region_def rejected_def split: option.splits)

lemma improved_analyze_accepted:
  assumes "\<not> rejected 50 (Some im)"
  shows "improved_analyze_shelf_region bk (Some im) n ts now st =
    (case bk im of
       Inl e \<Rightarrow> (Inl e, entered n st)
     | Inr a \<Rightarrow>
        (let t = (case ts of None \<Rightarrow> now | Some t \<Rightarrow> t);
             cd = calculate_improved_confidence improved_detection_params (sensitivity st) a;
             st2 = recorded improved_history_length n
                     (made_record t (frame_count st + 1) cd
                        (improved_determine_alert_level (empty_confidence cd) (is_empty cd))) st;
             sd = stability_metrics_of
                    (append_bounded improved_history_length
                       (made_record t (frame_count st + 1) cd
                        (improved_determine_alert_level (empty_confidence cd) (is_empty cd))) (old_history st n))
         in case improved_should_trigger_alert n t cd sd
                   (improved_determine_alert_level (empty_confidence cd) (is_empty cd)) st2 of
              (Inl e, st3) \<Rightarrow> (Inl e, st3)
            | (Inr should_alert, st3) \<Rightarrow>
                (Inr \<lparr> r_is_empty = is_empty cd,
                       r_confidence = empty_confidence cd,
                       r_fullness_score = Some (fullness_score cd),
                       r_should_alert = should_alert,
                       r_alert_level =
                         Some (improved_determine_alert_level (empty_confidence cd) (is_empty cd)),
                       r_visual_state =
                         determine_visual_state (empty_confidence cd) (is_empty cd),
                       r_stability = Some (consistency_score sd),
                       r_detection_strength = Some (detection_strength sd),
                       r_method_scores = method_scores cd,
                       r_frame_count = Some (frame_count st3),
                       r_timestamp = Some t,
                       r_trend = Some (trend sd),
                       r_reason = None \<rparr>,
                 st3)))"
  using assms
  by (simp add: improved_analyze_shelf_region_def rejected_def Let_def
        record_detection_init_section calculate_stability_metrics_def
        entered_def recorded_def made_record_def
        split: sum.splits)

lemma improved_analyze_effect:
  assumes "improved_analyze_shelf_region bk roi n ts now st = (out, st')"
  shows "analyze_effect improved_history_length improved_cooldown_time n
           (case ts of None \<Rightarrow> now | Some t \<Rightarrow> t) st (alerted (Some out)) st'"
proof (cases "rejected 50 roi")
  case True
  from improved_analyze_rejected [OF True, of bk n ts now st] assms
  show ?thesis
    by (auto simp: analyze_effect_def improved_create_error_result_def)
next
  case False
  then obtain im where roi: "roi = Some im"
    by (cases roi) (auto simp: rejected_def)
  show ?thesis
  proof (cases "bk im")
    case (Inl e)
    with assms False roi show ?thesis
      by (auto simp: improved_analyze_accepted analyze_effect_def)
  next
    case (Inr a)
    define t where "t = (case ts of None \<Rightarrow> now | Some t \<Rightarrow> t)"
    define cd where
      "cd = calculate_improved_confidence improved_detection_params (sensitivity st) a"
    define st2 where
      "st2 = recorded improved_history_length n (made_record t (frame_count st + 1) cd
                        (improved_determine_alert_level (empty_confidence cd) (is_empty cd))) st"
    define sd where
      "sd = stability_metrics_of
              (append_bounded improved_history_length
                 (made_record t (frame_count st + 1) cd
                        (improved_determine_alert_level (empty_confidence cd) (is_empty cd))) (old_history st n))"
    define al where "al = improved_determine_alert_level (empty_confidence cd) (is_empty cd)"
    obtain o3 st3 where a3: "improved_should_trigger_alert n t cd sd al st2 = (o3, st3)"
      by (cases "improved_should_trigger_alert n t cd sd al st2")
    from assms False roi Inr a3
    have res: "st' = st3" "alerted (Some out) \<longleftrightarrow> o3 = Inr True"
      by (auto simp: improved_analyze_accepted Let_def t_def cd_def st2_def sd_def al_def
               split: sum.splits)
    from improved_alert_effect [OF a3] res show ?thesis
      unfolding analyze_effect_def st2_def t_def by auto
  qed
qed

lemma run_length: "length (fst (run step cs st)) = length cs"
  by (induction cs arbitrary: st) (simp_all add: split_beta)

lemma step_effect_analyze:
  assumes "step_effect N cd step" and "step (Analyze roi n ts now) st = (out, st')"
  shows "analyze_effect N cd n (case ts of None \<Rightarrow> now | Some t \<Rightarrow> t) st (alerted out) st'"
proof -
  from assms(1)
  have "\<forall>c st out st'. step c st = (out, st') \<longrightarrow>
          (case c of
             Analyze roi shelf_name timestamp_arg now \<Rightarrow>
               analyze_effect N cd shelf_name (call_time c) st (alerted out) st'
           | Update_sensitivity v \<Rightarrow>
               \<not> alerted out \<and> detection_history st' = detection_history st
               \<and> alert_cooldown st' = alert_cooldown st)"
    by (simp add: step_effect_def)
  from this [rule_format, OF assms(2)] show ?thesis by simp
qed

lemma step_effect_update:
  assumes "step_effect N cd step" and "step (Update_sensitivity v) st = (out, st')"
  shows "\<not> alerted out" "detection_history st' = detection_history st"
        "alert_cooldown st' = alert_cooldown st"
proof -
  from assms(1)
  have "\<forall>c st out st'. step c st = (out, st') \<longrightarrow>
          (case c of
             Analyze roi shelf_name timestamp_arg now \<Rightarrow>
               analyze_effect N cd shelf_name (call_time c) st (alerted out) st'
           | Update_sensitivity v \<Rightarrow>
               \<not> alerted out \<and> detection_history st' = detection_history st
               \<and> alert_cooldown st' = alert_cooldown st)"
    by (simp add: step_effect_def)
  from this [rule_format, OF assms(2)]
  show "\<not> alerted out" "detection_history st' = detection_history st"
       "alert_cooldown st' = alert_cooldown st"
    by simp_all
qed

lemma step_effect_bounded:
  assumes "step_effect N cd step" and "step c st = (out, st')" and "history_bounded N st"
  shows "history_bounded N st'"
proof (cases c)
  case (Analyze roi n ts now)
  with assms(1,2) have "analyze_effect N cd n (call_time c) st (alerted out) st'"
    by (simp add: step_effect_analyze)
  then show ?thesis using assms(3) by (rule analyze_effect_bounded)
next
  case (Update_sensitivity v)
  with step_effect_update(2) [OF assms(1), of v st out st'] assms(2,3) show ?thesis
    by (simp add: history_bounded_def)
qed

lemma step_effect_clocks:
  assumes "step_effect N cd step" and "step c st = (out, st')"
      and "clocks_have_history st" and "0 \<le> cd"
  shows "clocks_have_history st'"
    and "clock st m \<le> clock st' m"
    and "alerted out \<Longrightarrow> call_section c = Some n \<Longrightarrow>
           clock st n + cd \<le> call_time c \<and> clock st' n = call_time c"
proof -
  show "clocks_have_history st'"
  proof (cases c)
    case (Analyze roi n' ts now)
    with assms(1,2) have "analyze_effect N cd n' (call_time c) st (alerted out) st'"
      by (simp add: step_effect_analyze)
    then show ?thesis using assms(3,4) by (rule analyze_effect_clocks)
  next
    case (Update_sensitivity v)
    with step_effect_update(2,3) [OF assms(1), of v st out st'] assms(2,3) show ?thesis
      by (simp add: clocks_have_history_def)
  qed
  show "clock st m \<le> clock st' m"
  proof (cases c)
    case (Analyze roi n' ts now)
    with assms(1,2) have "analyze_effect N cd n' (call_time c) st (alerted out) st'"
      by (simp add: step_effect_analyze)
    then show ?thesis using assms(3,4) by (rule analyze_effect_clocks)
  next
    case (Update_sensitivity v)
    with step_effect_update(3) [OF assms(1), of v st out st'] assms(2) show ?thesis
      by (simp add: clock_def)
  qed
  show "clock st n + cd \<le> call_time c \<and> clock st' n = call_time c"
    if "alerted out" "call_section c = Some n"
  proof (cases c)
    case (Analyze roi n' ts now)
    with assms(1,2) have "analyze_effect N cd n' (call_time c) st (alerted out) st'"
      by (simp add: step_effect_analyze)
    from analyze_effect_clocks(3) [OF this assms(3,4) that(1)] that(2) Analyze
    show ?thesis by simp
  next
    case (Update_sensitivity v)
    with that show ?thesis by simp
  qed
qed

lemma run_bounded:
  assumes "step_effect N cd step" and "history_bounded N st"
  shows "history_bounded N (snd (run step cs st))"
  using assms(2)
proof (induction cs arbitrary: st)
  case Nil
  then show ?case by simp
next
  case (Cons c cs)
  obtain out st' where s: "step c st = (out, st')"
    by (cases "step c st")
  from step_effect_bounded [OF assms(1) s Cons.prems] have "history_bounded N st'" .
  then have "history_bounded N (snd (run step cs st'))" by (rule Cons.IH)
  then show ?case by (simp add: s split_beta)
qed

lemma run_alert_after_clock:
  assumes "step_effect N cd step" and "0 \<le> cd"
      and "clocks_have_history st" and "j < length cs"
      and "alerted (fst (run step cs st) ! j)" and "call_section (cs ! j) = Some n"
  shows "clock st n + cd \<le> call_time (cs ! j)"
  using assms(3-6)
proof (induction cs arbitrary: st j)
  case Nil
  then show ?case by simp
next
  case (Cons c cs)
  obtain out st' where s: "step c st = (out, st')"
    by (cases "step c st")
  note e = step_effect_clocks [OF assms(1) s Cons.prems(1) assms(2)]
  show ?case
  proof (cases j)
    case 0
    with Cons.prems s e(3) [of n] show ?thesis
      by (simp add: s split_beta)
  next
    case (Suc k)
    with Cons.prems have "clock st' n + cd \<le> call_time (cs ! k)"
      by (intro Cons.IH [OF e(1)]) (simp_all add: s split_beta)
    with e(2) [of n] Suc show ?thesis by simp
  qed
qed

lemma run_alerts_apart:
  assumes "step_effect N cd step" and "0 \<le> cd"
      and "clocks_have_history st" and "i < j" and "j < length cs"
      and "alerted (fst (run step cs st) ! i)" and "call_section (cs ! i) = Some n"
      and "alerted (fst (run step cs st) ! j)" and "call_section (cs ! j) = Some n"
  shows "call_time (cs ! i) + cd \<le> call_time (cs ! j)"
  using assms(3-9)
proof (induction cs arbitrary: st i j)
  case Nil
  then show ?case by simp
next
  case (Cons c cs)
  obtain out st' where s: "step c st = (out, st')"
    by (cases "step c st")
  note e = step_effect_clocks [OF assms(1) s Cons.prems(1) assms(2)]
  from Cons.prems(2) obtain k where j: "j = Suc k"
    by (cases j) simp_all
  show ?case
  proof (cases i)
    case 0
    with Cons.prems s have al: "alerted out" and sec: "call_section c = Some n"
      by (simp_all add: s split_beta)
    from e(3) [OF al sec] have now: "clock st' n = call_time c" by simp
    from Cons.prems j
    have "clock st' n + cd \<le> call_time (cs ! k)"
      by (intro run_alert_after_clock [OF assms(1,2) e(1)]) (simp_all add: s split_beta)
    with now 0 j show ?thesis by simp
  next
    case (Suc i')
    with Cons.prems j have "call_time (cs ! i') + cd \<le> call_time (cs ! k)"
      by (intro Cons.IH [OF e(1)]) (simp_all add: s split_beta)
    with Suc j show ?thesis by simp
  qed
qed

lemma init_state_invariants:
  "clocks_have_history (init_state s)" "history_bounded N (init_state s)"
  by (simp_all add: init_state_def clocks_have_history_def history_bounded_def)

lemma improved_step_effect:
  "step_effect improved_history_length improved_cooldown_time (improved_step bk)"
  unfolding step_effect_def
proof (intro allI impI)
  fix c st out st'
  assume s: "improved_step bk c st = (out, st')"
  show "case c of
          Analyze roi shelf_name timestamp_arg now \<Rightarrow>
            analyze_effect improved_history_length improved_cooldown_time shelf_name
              (call_time c) st (alerted out) st'
        | Update_sensitivity v \<Rightarrow>
            \<not> alerted out \<and> detection_history st' = detection_history st
            \<and> alert_cooldown st' = alert_cooldown st"
  proof (cases c)
    case (Analyze roi n ts now)
    obtain r st'' where a: "improved_analyze_shelf_region bk roi n ts now st = (r, st'')"
      by (cases "improved_analyze_shelf_region bk roi n ts now st")
    from improved_analyze_effect [OF a] s a Analyze show ?thesis by auto
  next
    case (Update_sensitivity v)
    with s show ?thesis by (auto simp: improved_update_sensitivity_def)
  qed
qed

lemma yolo8m_alert_effect:
  assumes "yolo8m_should_trigger_alert n cd t st = (b, st')"
  shows "(b \<and> is_empty cd \<and> clock st n + yolo8m_cooldown_time \<le> t \<and> st' = fired n t st)
       \<or> (\<not> b \<and> st' = st)"
  using assms
  by (auto simp: yolo8m_should_trigger_alert_def clock_def fired_def
           split: if_splits option.splits)

lemma yolo8m_analyze_rejected:
  assumes "rejected 50 roi"
  shows "\<exists>msg. yolo8m_analyze_shelf_region bk roi n ts now st =
           (Inr (yolo8m_create_error_result msg n), st)"
  using assms
  by (auto simp: yolo8m_analyze_shelf_region_def rejected_def split: option.splits)

lemma yolo8m_analyze_accepted:
  assumes "\<not> rejected 50 (Some im)"
  shows "yolo8m_analyze_shelf_region bk (Some im) n ts now st =
    (case perform_yolo_enhanced_analysis bk im of
       Inl e \<Rightarrow> (Inl e, entered n st)
     | Inr a \<Rightarrow>
        (let t = (case ts of None \<Rightarrow> now | Some t \<Rightarrow> t);
             cd = calculate_yolo_enhanced_confidence yolo8m_detection_params (sensitivity st) a;
             al = yolo8m_determine_alert_level (empty_confidence cd) (is_empty cd);
             st2 = recorded yolo8m_history_length n
                     (made_record t (frame_count st + 1) cd al) st;
             (should_alert, st3) = yolo8m_should_trigger_alert n cd t st2
         in (Inr \<lparr> r_is_empty = is_empty cd,
                   r_confidence = empty_confidence cd,
                   r_fullness_score = Some (fullness_score cd),
                   r_should_alert = should_alert,
                   r_alert_level = Some al,
                   r_visual_state =
                     determine_visual_state (empty_confidence cd) (is_empty cd),
                   r_stability = None,
                   r_detection_strength = None,
                   r_method_scores = method_scores cd,
                   r_frame_count = None,
                   r_timestamp = None,
                   r_trend = Some (calculate_trend bk st3 n),
                   r_reason = None \<rparr>,
             st3)))"
  using assms
  by (simp add: yolo8m_analyze_shelf_region_def rejected_def Let_def
        record_detection_init_section entered_def recorded_def made_record_def
        split: sum.splits)

lemma yolo8m_analyze_effect:
  assumes "yolo8m_analyze_shelf_region bk roi n ts now st = (out, st')"
  shows "analyze_effect yolo8m_history_length yolo8m_cooldown_time n
           (case ts of None \<Rightarrow> now | Some t \<Rightarrow> t) st (alerted (Some out)) st'"
proof (cases "rejected 50 roi")
  case True
  from yolo8m_analyze_rejected [OF True, of bk n ts now st] assms
  show ?thesis
    by (auto simp: analyze_effect_def yolo8m_create_error_result_def)
next
  case False
  then obtain im where roi: "roi = Some im"
    by (cases roi) (auto simp: rejected_def)
  show ?thesis
  proof (cases "perform_yolo_enhanced_analysis bk im")
    case (Inl e)
    with assms False roi show ?thesis
      by (auto simp: yolo8m_analyze_accepted analyze_effect_def)
  next
    case (Inr a)
    define t where "t = (case ts of None \<Rightarrow> now | Some t \<Rightarrow> t)"
    define cd where
      "cd = calculate_yolo_enhanced_confidence yolo8m_detection_params (sensitivity st) a"
    define st2 where
      "st2 = recorded yolo8m_history_length n
               (made_record t (frame_count st + 1) cd
                  (yolo8m_determine_alert_level (empty_confidence cd) (is_empty cd))) st"
    obtain b st3 where a3: "yolo8m_should_trigger_alert n cd t st2 = (b, st3)"
      by (cases "yolo8m_should_trigger_alert n cd t st2")
    from assms False roi Inr a3
    have res: "st' = st3" "alerted (Some out) \<longleftrightarrow> b"
      by (auto simp: yolo8m_analyze_accepted Let_def t_def cd_def st2_def)
    from yolo8m_alert_effect [OF a3] res show ?thesis
      unfolding analyze_effect_def st2_def t_def by auto
  qed
qed

lemma yolo8m_step_effect:
  "step_effect yolo8m_history_length yolo8m_cooldown_time (yolo8m_step bk)"
  unfolding step_effect_def
proof (intro allI impI)
  fix c st out st'
  assume s: "yolo8m_step bk c st = (out, st')"
  show "case c of
          Analyze roi shelf_name timestamp_arg now \<Rightarrow>
            analyze_effect yolo8m_history_length yolo8m_cooldown_time shelf_name
              (call_time c) st (alerted out) st'
        | Update_sensitivity v \<Rightarrow>
            \<not> alerted out \<and> detection_history st' = detection_history st
            \<and> alert_cooldown st' = alert_cooldown st"
  proof (cases c)
    case (Analyze roi n ts now)
    obtain r st'' where a: "yolo8m_analyze_shelf_region bk roi n ts now st = (r, st'')"
      by (cases "yolo8m_analyze_shelf_region bk roi n ts now st")
    from yolo8m_analyze_effect [OF a] s a Analyze show ?thesis by auto
  next
    case (Update_sensitivity v)
    with s show ?thesis by (auto simp: yolo8m_update_sensitivity_def)
  qed
qed

lemma enhanced_alert_effect:
  assumes "enhanced_should_alert n t e c k st = (out, st')"
  shows "(out = Inr True \<and> e
            \<and> clock st n + enhanced_cooldown_time \<le> t \<and> st' = fired n t st)
       \<or> (out \<noteq> Inr True \<and> st' = st)"
  using assms
  by (auto simp: enhanced_should_alert_def clock_def fired_def
           split: if_splits option.splits)

lemma enhanced_analyze_rejected:
  assumes "rejected 30 roi"
  shows "\<exists>msg. enhanced_analyze_shelf_region bk roi n ts now st =
           (Inr (enhanced_create_result True 1.0 msg n ''empty_high'' now st), st)"
  using assms
  by (auto simp: enhanced_analyze_shelf_region_def rejected_def split: option.splits)

lemma enhanced_analyze_accepted:
  assumes "\<not> rejected 30 (Some im)"
  shows "enhanced_analyze_shelf_region bk (Some im) n ts now st =
    (case bk im of
       Inl e \<Rightarrow> (Inl e, entered n st)
     | Inr a \<Rightarrow>
        (let t = (case ts of None \<Rightarrow> now | Some t \<Rightarrow> t);
             (confidence, emp, visual_state) = calculate_enhanced_confidence (sensitivity st) a;
             st2 = recorded enhanced_history_length n
                     \<lparr> eh_timestamp = t, eh_is_empty = emp, eh_confidence = confidence,
                       eh_visual_state = visual_state \<rparr> st;
             stability = calculate_stability st2 n
         in case enhanced_should_alert n t emp confidence stability st2 of
              (Inl e, st3) \<Rightarrow> (Inl e, st3)
            | (Inr should_alert, st3) \<Rightarrow>
                (Inr \<lparr> r_is_empty = emp,
                       r_confidence = confidence,
                       r_fullness_score = None,
                       r_should_alert = should_alert,
                       r_alert_level = None,
                       r_visual_state = visual_state,
                       r_stability = Some stability,
                       r_detection_strength = None,
                       r_method_scores =
                         [(''color_analysis'', color_score a),
                          (''edge_analysis'', edge_score a),
                          (''texture_analysis'', e_texture_score a),
                          (''contour_analysis'', contour_score a),
                          (''brightness_analysis'', brightness_score a)],
                       r_frame_count = Some (frame_count st3),
                       r_timestamp = Some t,
                       r_trend = None,
                       r_reason = None \<rparr>,
                 st3)))"
  using assms
  by (simp add: enhanced_analyze_shelf_region_def rejected_def Let_def
        record_detection_init_section entered_def recorded_def split_beta
        split: sum.splits)

lemma enhanced_analyze_effect:
  assumes "enhanced_analyze_shelf_region bk roi n ts now st = (out, st')"
  shows "analyze_effect enhanced_history_length enhanced_cooldown_time n
           (case ts of None \<Rightarrow> now | Some t \<Rightarrow> t) st (alerted (Some out)) st'"
proof (cases "rejected 30 roi")
  case True
  from enhanced_analyze_rejected [OF True, of bk n ts now st] assms
  show ?thesis
    by (auto simp: analyze_effect_def enhanced_create_result_def)
next
  case False
  then obtain im where roi: "roi = Some im"
    by (cases roi) (auto simp: rejected_def)
  show ?thesis
  proof (cases "bk im")
    case (Inl e)
    with assms False roi show ?thesis
      by (auto simp: enhanced_analyze_accepted analyze_effect_def)
  next
    case (Inr a)
    define t where "t = (case ts of None \<Rightarrow> now | Some t \<Rightarrow> t)"
    obtain c e v where cd: "calculate_enhanced_confidence (sensitivity st) a = (c, e, v)"
      by (cases "calculate_enhanced_confidence (sensitivity st) a")
    define st2 where
      "st2 = recorded enhanced_history_length n
               \<lparr> eh_timestamp = t, eh_is_empty = e, eh_confidence = c,
                 eh_visual_state = v \<rparr> st"
    obtain o3 st3 where
      a3: "enhanced_should_alert n t e c (calculate_stability st2 n) st2 = (o3, st3)"
      by (cases "enhanced_should_alert n t e c (calculate_stability st2 n) st2")
    from assms False roi Inr a3 cd
    have res: "st' = st3" "alerted (Some out) \<longleftrightarrow> o3 = Inr True"
      by (auto simp: enhanced_analyze_accepted Let_def t_def st2_def split: sum.splits)
    from enhanced_alert_effect [OF a3] res show ?thesis
      unfolding analyze_effect_def st2_def t_def by auto
  qed
qed

lemma enhanced_step_effect:
  "step_effect enhanced_history_length enhanced_cooldown_time (enhanced_step bk)"
  unfolding step_effect_def
proof (intro allI impI)
  fix c st out st'
  assume s: "enhanced_step bk c st = (out, st')"
  show "case c of
          Analyze roi shelf_name timestamp_arg now \<Rightarrow>
            analyze_effect enhanced_history_length enhanced_cooldown_time shelf_name
              (call_time c) st (alerted out) st'
        | Update_sensitivity v \<Rightarrow>
            \<not> alerted out \<and> detection_history st' = detection_history st
            \<and> alert_cooldown st' = alert_cooldown st"
  proof (cases c)
    case (Analyze roi n ts now)
    obtain r st'' where a: "enhanced_analyze_shelf_region bk roi n ts now st = (r, st'')"
      by (cases "enhanced_analyze_shelf_region bk roi n ts now st")
    from enhanced_analyze_effect [OF a] s a Analyze show ?thesis by auto
  next
    case (Update_sensitivity v)
    with s show ?thesis by (auto simp: enhanced_update_sensitivity_def)
  qed
qed

lemma improved_analyze_success:
  assumes "improved_analyze_shelf_region bk roi n ts now st = (Inr res, st')"
      and "r_reason res = None"
  shows "\<exists>im a. roi = Some im \<and> \<not> rejected 50 roi \<and> bk im = Inr a \<and>
           (let t = (case ts of None \<Rightarrow> now | Some t \<Rightarrow> t);
                cd = calculate_improved_confidence improved_detection_params (sensitivity st) a;
                al = improved_determine_alert_level (empty_confidence cd) (is_empty cd);
                history = append_bounded improved_history_length
                            (made_record t (frame_count st + 1) cd al) (old_history st n)
            in r_is_empty res = is_empty cd
             \<and> r_confidence res = empty_confidence cd
             \<and> r_fullness_score res = Some (fullness_score cd)
             \<and> r_stability res = Some (consistency_score (stability_metrics_of history))
             \<and> (r_should_alert res \<longrightarrow> is_empty cd)
             \<and> detection_history st' = (detection_history st)(n \<mapsto> history)
             \<and> sensitivity st' = sensitivity st)"
proof (cases "rejected 50 roi")
  case True
  from improved_analyze_rejected [OF True, of bk n ts now st] assms
  show ?thesis
    by (auto simp: improved_create_error_result_def)
next
  case False
  then obtain im where roi: "roi = Some im"
    by (cases roi) (auto simp: rejected_def)
  from assms(1) False roi obtain a where a: "bk im = Inr a"
    by (cases "bk im") (auto simp: improved_analyze_accepted)
  define t where "t = (case ts of None \<Rightarrow> now | Some t \<Rightarrow> t)"
  define cd where
    "cd = calculate_improved_confidence improved_detection_params (sensitivity st) a"
  define al where "al = improved_determine_alert_level (empty_confidence cd) (is_empty cd)"
  define history where
    "history = append_bounded improved_history_length
                 (made_record t (frame_count st + 1) cd al) (old_history st n)"
  define st2 where
    "st2 = recorded improved_history_length n (made_record t (frame_count st + 1) cd al) st"
  define sd where "sd = stability_metrics_of history"
  obtain o3 st3 where a3: "improved_should_trigger_alert n t cd sd al st2 = (o3, st3)"
    by (cases "improved_should_trigger_alert n t cd sd al st2")
  from assms(1) False roi a a3
  have res: "st' = st3" "r_is_empty res = is_empty cd" "r_confidence res = empty_confidence cd"
    "r_fullness_score res = Some (fullness_score cd)"
    "r_stability res = Some (consistency_score sd)"
    "r_should_alert res \<longleftrightarrow> o3 = Inr True"
    by (auto simp: improved_analyze_accepted Let_def t_def cd_def st2_def sd_def al_def
             history_def split: sum.splits)
  from improved_alert_effect [OF a3] res(1,6)
  have "(r_should_alert res \<longrightarrow> is_empty cd)" "detection_history st' = detection_history st2"
    "sensitivity st' = sensitivity st2"
    by auto
  with res roi False a show ?thesis
    by (simp add: Let_def st2_def sd_def history_def t_def cd_def al_def)
qed

lemma yolo8m_analyze_success:
  assumes "yolo8m_analyze_shelf_region bk roi n ts now st = (Inr res, st')"
      and "r_reason res = None"
  shows "\<exists>im a. roi = Some im \<and> \<not> rejected 50 roi
           \<and> perform_yolo_enhanced_analysis bk im = Inr a \<and>
           (let t = (case ts of None \<Rightarrow> now | Some t \<Rightarrow> t);
                cd = calculate_yolo_enhanced_confidence yolo8m_detection_params
                       (sensitivity st) a;
                al = yolo8m_determine_alert_level (empty_confidence cd) (is_empty cd);
                history = append_bounded yolo8m_history_length
                            (made_record t (frame_count st + 1) cd al) (old_history st n)
            in r_is_empty res = is_empty cd
             \<and> r_confidence res = empty_confidence cd
             \<and> r_fullness_score res = Some (fullness_score cd)
             \<and> (r_should_alert res \<longrightarrow> is_empty cd)
             \<and> detection_history st' = (detection_history st)(n \<mapsto> history)
             \<and> sensitivity st' = sensitivity st)"
proof (cases "rejected 50 roi")
  case True
  from yolo8m_analyze_rejected [OF True, of bk n ts now st] assms
  show ?thesis
    by (auto simp: yolo8m_create_error_result_def)
next
  case False
  then obtain im where roi: "roi = Some im"
    by (cases roi) (auto simp: rejected_def)
  from assms(1) False roi obtain a where a: "perform_yolo_enhanced_analysis bk im = Inr a"
    by (cases "perform_yolo_enhanced_analysis bk im") (auto simp: yolo8m_analyze_accepted)
  define t where "t = (case ts of None \<Rightarrow> now | Some t \<Rightarrow> t)"
  define cd where
    "cd = calculate_yolo_enhanced_confidence yolo8m_detection_params (sensitivity st) a"
  define al where "al = yolo8m_determine_alert_level (empty_confidence cd) (is_empty cd)"
  define st2 where
    "st2 = recorded yolo8m_history_length n (made_record t (frame_count st + 1) cd al) st"
  obtain b st3 where a3: "yolo8m_should_trigger_alert n cd t st2 = (b, st3)"
    by (cases "yolo8m_should_trigger_alert n cd t st2")
  from assms(1) False roi a a3
  have res: "st' = st3" "r_is_empty res = is_empty cd" "r_confidence res = empty_confidence cd"
    "r_fullness_score res = Some (fullness_score cd)"
    "r_should_alert res \<longleftrightarrow> b"
    by (auto simp: yolo8m_analyze_accepted Let_def t_def cd_def st2_def al_def)
  from yolo8m_alert_effect [OF a3] res(1,5)
  have "(r_should_alert res \<longrightarrow> is_empty cd)" "detection_history st' = detection_history st2"
    "sensitivity st' = sensitivity st2"
    by auto
  with res roi False a show ?thesis
    by (simp add: Let_def st2_def t_def cd_def al_def)
qed

lemma enhanced_analyze_success:
  assumes "enhanced_analyze_shelf_region bk roi n ts now st = (Inr res, st')"
      and "r_reason res = None"
  shows "\<exists>im a c e v. roi = Some im \<and> \<not> rejected 30 roi \<and> bk im = Inr a
           \<and> calculate_enhanced_confidence (sensitivity st) a = (c, e, v) \<and>
           (let t = (case ts of None \<Rightarrow> now | Some t \<Rightarrow> t);
                history = append_bounded enhanced_history_length
                            \<lparr> eh_timestamp = t, eh_is_empty = e, eh_confidence = c,
                              eh_visual_state = v \<rparr> (old_history st n)
            in r_is_empty res = e
             \<and> r_confidence res = c
             \<and> r_visual_state res = v
             \<and> r_stability res =
                 Some (calculate_stability (recorded enhanced_history_length n
                         \<lparr> eh_timestamp = t, eh_is_empty = e, eh_confidence = c,
                           eh_visual_state = v \<rparr> st) n)
             \<and> (r_should_alert res \<longrightarrow> e)
             \<and> detection_history st' = (detection_history st)(n \<mapsto> history)
             \<and> sensitivity st' = sensitivity st)"
proof (cases "rejected 30 roi")
  case True
  from enhanced_analyze_rejected [OF True, of bk n ts now st] assms
  show ?thesis
    by (auto simp: enhanced_create_result_def)
next
  case False
  then obtain im where roi: "roi = Some im"
    by (cases roi) (auto simp: rejected_def)
  from assms(1) False roi obtain a where a: "bk im = Inr a"
    by (cases "bk im") (auto simp: enhanced_analyze_accepted)
  define t where "t = (case ts of None \<Rightarrow> now | Some t \<Rightarrow> t)"
  obtain c e v where cd: "calculate_enhanced_confidence (sensitivity st) a = (c, e, v)"
    by (cases "calculate_enhanced_confidence (sensitivity st) a")
  define st2 where
    "st2 = recorded enhanced_history_length n
             \<lparr> eh_timestamp = t, eh_is_empty = e, eh_confidence = c,
               eh_visual_state = v \<rparr> st"
  obtain o3 st3 where
    a3: "enhanced_should_alert n t e c (calculate_stability st2 n) st2 = (o3, st3)"
    by (cases "enhanced_should_alert n t e c (calculate_stability st2 n) st2")
  from assms(1) False roi a a3 cd
  have res: "st' = st3" "r_is_empty res = e" "r_confidence res = c" "r_visual_state res = v"
    "r_stability res = Some (calculate_stability st2 n)"
    "r_should_alert res \<longleftrightarrow> o3 = Inr True"
    by (auto simp: enhanced_analyze_accepted Let_def t_def st2_def split: sum.splits)
  from enhanced_alert_effect [OF a3] res(1,6)
  have "(r_should_alert res \<longrightarrow> e)" "detection_history st' = detection_history st2"
    "sensitivity st' = sensitivity st2"
    by auto
  with res roi False a cd show ?thesis
    by (simp add: Let_def st2_def t_def)
qed

lemma improved_analyze_error:
  assumes "improved_analyze_shelf_region bk roi n ts now st = (Inr res, st')"
      and "r_reason res \<noteq> None"
  shows "rejected 50 roi \<and> st' = st \<and> (\<exists>msg. res = improved_create_error_result msg n now st)"
proof (cases "rejected 50 roi")
  case True
  from improved_analyze_rejected [OF True, of bk n ts now st] assms(1) True
  show ?thesis by auto
next
  case False
  then obtain im where roi: "roi = Some im"
    by (cases roi) (auto simp: rejected_def)
  from assms False roi have False
    by (cases "bk im")
       (auto simp: improved_analyze_accepted Let_def split: sum.splits prod.splits)
  then show ?thesis ..
qed

lemma yolo8m_analyze_error:
  assumes "yolo8m_analyze_shelf_region bk roi n ts now st = (Inr res, st')"
      and "r_reason res \<noteq> None"
  shows "rejected 50 roi \<and> st' = st \<and> (\<exists>msg. res = yolo8m_create_error_result msg n)"
proof (cases "rejected 50 roi")
  case True
  from yolo8m_analyze_rejected [OF True, of bk n ts now st] assms(1) True
  show ?thesis by auto
next
  case False
  then obtain im where roi: "roi = Some im"
    by (cases roi) (auto simp: rejected_def)
  from assms False roi have False
    by (cases "perform_yolo_enhanced_analysis bk im")
       (auto simp: yolo8m_analyze_accepted Let_def split: sum.splits prod.splits)
  then show ?thesis ..
qed

lemma enhanced_analyze_error:
  assumes "enhanced_analyze_shelf_region bk roi n ts now st = (Inr res, st')"
      and "r_reason res \<noteq> None"
  shows "rejected 30 roi \<and> st' = st \<and> (\<exists>msg. res = enhanced_create_result True 1.0 msg n ''empty_high'' now st)"
proof (cases "rejected 30 roi")
  case True
  from enhanced_analyze_rejected [OF True, of bk n ts now st] assms(1) True
  show ?thesis by auto
next
  case False
  then obtain im where roi: "roi = Some im"
    by (cases roi) (auto simp: rejected_def)
  from assms False roi have False
    by (cases "bk im")
       (auto simp: enhanced_analyze_accepted Let_def split: sum.splits prod.splits)
  then show ?thesis ..
qed

lemma rejected_pixels:
  "rejected m (map_option (\<lambda>im. im\<lparr>pixels := px\<rparr>) roi) = rejected m roi"
  by (cases roi) (simp_all add: rejected_def roi_size_def)

lemma improved_rejected_result:
  assumes "rejected 50 roi"
  shows "improved_analyze_shelf_region bk roi n ts now st =
           (Inr (improved_create_error_result
                   (if roi = None \<or> roi_size (the roi) = 0 then ''No image data''
                    else ''Region too small for analysis'') n now st), st)"
  using assms
  by (cases roi) (auto simp: improved_analyze_shelf_region_def rejected_def)

lemma yolo8m_rejected_result:
  assumes "rejected 50 roi"
  shows "yolo8m_analyze_shelf_region bk roi n ts now st =
           (Inr (yolo8m_create_error_result
                   (if roi = None \<or> roi_size (the roi) = 0 then ''No image data''
                    else ''Region too small for analysis'') n), st)"
  using assms
  by (cases roi) (auto simp: yolo8m_analyze_shelf_region_def rejected_def)

lemma last_n_map: "last_n k (map f xs) = map f (last_n k xs)"
  by (simp add: last_n_def drop_map)

lemma last_n_nonempty: "xs \<noteq> [] \<Longrightarrow> 0 < k \<Longrightarrow> last_n k xs \<noteq> []"
  by (cases xs) (auto simp: last_n_def)

lemma last_last_n: "xs \<noteq> [] \<Longrightarrow> 0 < k \<Longrightarrow> last (last_n k xs) = last xs"
  by (cases xs) (auto simp: last_n_def last_drop)

lemma spec_consistency_map:
  assumes "xs \<noteq> []"
  shows "spec_consistency (map f xs) =
           min 5 (length (filter (\<lambda>s. s = last (map f (last_n 5 xs))) (map f (last_n 5 xs))))"
proof -
  have "last (map f (last_n 5 xs)) = last (map f xs)"
    using assms by (simp add: last_map last_n_nonempty last_last_n)
  then show ?thesis
    by (simp add: spec_consistency_def last_n_map)
qed

lemma improved_consistency:
  "consistency_score (stability_metrics_of history) =
     (if length history < 3 then length history
      else spec_consistency (map h_is_empty history))"
proof (cases "length history < 3")
  case True
  then show ?thesis by (simp add: stability_metrics_of_def)
next
  case False
  then have "history \<noteq> []" by auto
  from spec_consistency_map [OF this, of h_is_empty] False show ?thesis
    by (simp add: stability_metrics_of_def Let_def)
qed

lemma enhanced_consistency:
  assumes "detection_history st n = Some history"
  shows "calculate_stability st n =
           (if length history < 3 then length history
            else spec_consistency (map eh_is_empty history))"
proof (cases "length history < 3")
  case True
  with assms show ?thesis by (simp add: calculate_stability_def)
next
  case False
  then have "history \<noteq> []" by auto
  from spec_consistency_map [OF this, of eh_is_empty] False assms show ?thesis
    by (simp add: calculate_stability_def Let_def)
qed

lemma append_bounded_eq:
  assumes "length history \<le> n" and "0 < n"
  shows "append_bounded n rec history =
           (if length history < n then history else tl history) @ [rec]"
  using assms by (cases history) (auto simp: append_bounded_def Let_def)

lemma collect_boxes_filter:
  "collect_boxes params classes boxes (prods, confs, areas) =
     (prods @ map product_of_box (filter (is_product_detection params classes) boxes),
      confs @ map box_conf (filter (is_product_detection params classes) boxes),
      areas @ map box_area (filter (is_product_detection params classes) boxes))"
  by (induction boxes arbitrary: prods confs areas) simp_all

lemma collect_results_filter:
  "collect_results params classes results (prods, confs, areas) =
     (prods @ map product_of_box
                (filter (is_product_detection params classes) (all_boxes results)),
      confs @ map box_conf (filter (is_product_detection params classes) (all_boxes results)),
      areas @ map box_area (filter (is_product_detection params classes) (all_boxes results)))"
proof (induction results arbitrary: prods confs areas)
  case Nil
  then show ?case by (simp add: all_boxes_def)
next
  case (Cons res results)
  show ?case
  proof (cases res)
    case None
    with Cons show ?thesis by (simp add: all_boxes_def)
  next
    case (Some boxes)
    with Cons show ?thesis by (simp add: all_boxes_def collect_boxes_filter)
  qed
qed

lemma perform_yolo_detection_filter:
  assumes "model im (yolo_confidence_threshold params) = Inr results"
  shows "perform_yolo_detection (Some model) params classes im =
     (let kept = filter (is_product_detection params classes) (all_boxes results);
          total_area = sum_list (map box_area kept)
      in \<lparr> products_detected = map product_of_box kept, product_count = length kept,
           confidence_scores = map box_conf kept, detection_areas = map box_area kept,
           coverage_ratio =
             (if height im * width im > 0
              then min 1.0 (total_area / real (height im * width im)) else 0.0),
           total_detection_area = Some total_area, yolo_available = True \<rparr>)"
  using assms
  by (simp add: perform_yolo_detection_def collect_results_filter Let_def)

lemma run_nth_step:
  "k < length cs \<Longrightarrow>
     fst (step (cs ! k) (snd (run step (take k cs) st))) = fst (run step cs st) ! k"
proof (induction cs arbitrary: k st)
  case Nil
  then show ?case by simp
next
  case (Cons c cs)
  show ?case
  proof (cases k)
    case 0
    then show ?thesis by (simp add: split_beta)
  next
    case (Suc j)
    with Cons.prems have "j < length cs" by simp
    from Cons.IH [OF this, of "snd (step c st)"] Suc show ?thesis
      by (simp add: split_beta)
  qed
qed

lemma run_sensitivity:
  assumes "step_effect N cd step" and "\<forall>c\<in>set cs. call_section c \<noteq> None"
  shows "sensitivity (snd (run step cs st)) = sensitivity st"
  using assms(2)
proof (induction cs arbitrary: st)
  case Nil
  then show ?case by simp
next
  case (Cons c cs)
  obtain out st' where s: "step c st = (out, st')"
    by (cases "step c st")
  from Cons.prems obtain roi n ts now where c: "c = Analyze roi n ts now"
    by (cases c) auto
  from step_effect_analyze [OF assms(1) s [unfolded c]]
  have "sensitivity st' = sensitivity st"
    by (rule analyze_effect_sensitivity)
  moreover from Cons.prems have "sensitivity (snd (run step cs st')) = sensitivity st'"
    by (intro Cons.IH) simp
  ultimately show ?case by (simp add: s split_beta)
qed

lemma clamp_max_min: "max lo (min hi v) = clamp lo hi v" if "lo \<le> hi"
  using that by (auto simp: clamp_def max_def min_def)

lemma update_sensitivity_stored:
  "sensitivity (improved_update_sensitivity v st) = clamp 0.1 1.0 v"
  "sensitivity (enhanced_update_sensitivity v st) = clamp 0.1 1.0 v"
  "sensitivity (yolo8m_update_sensitivity v st) = clamp 0.1 0.9 v"
  by (simp_all add: improved_update_sensitivity_def enhanced_update_sensitivity_def
        yolo8m_update_sensitivity_def clamp_max_min)

lemma ball_set_take: "\<forall>c\<in>set cs. P c \<Longrightarrow> \<forall>c\<in>set (take k cs). P c"
  by (meson in_set_takeD)

subsection \<open>The detectors on the concrete inputs\<close>

lemma gray_region_accepted:
  "\<not> rejected 50 (Some (gray_region 250 250))"
  "\<not> rejected 50 (Some (gray_region 100 100))"
  by (simp_all add: rejected_def gray_region_def roi_size_def)

lemma gray_region_accepted_30:
  "\<not> rejected 30 (Some (gray_region 250 250))"
  "\<not> rejected 30 (Some (gray_region 100 100))"
  by (simp_all add: rejected_def gray_region_def roi_size_def)

lemma sample_backend_gray:
  "sample_backend (gray_region 250 250) = Inr borderline_analysis"
  "sample_backend (gray_region 100 100) = Inr stocked_shelf_analysis"
  by (simp_all add: sample_backend_def gray_region_def)

lemma sample_yolo_analysis:
  "perform_yolo_enhanced_analysis sample_yolo_backend im = Inr (sample_yolo_features im)"
  by (simp add: perform_yolo_enhanced_analysis_def sample_yolo_backend_def
        perform_yolo_detection_def sample_yolo_features_def borderline_yolo_analysis_def
        textured_shelf_analysis_def)

lemma sample_yolo_features_gray:
  "sample_yolo_features (gray_region 250 250) = borderline_yolo_analysis"
  "sample_yolo_features (gray_region 100 100) = textured_shelf_analysis"
  by (simp_all add: sample_yolo_features_def gray_region_def)

lemma sample_enhanced_backend_gray:
  "sample_enhanced_backend (gray_region 250 250) =
     Inr \<lparr> color_score = 0.1, edge_score = 0.1, e_texture_score = 0.1,
           brightness_score = 0.1, contour_score = 0.1 \<rparr>"
  "sample_enhanced_backend (gray_region 100 100) =
     Inr \<lparr> color_score = 0.9, edge_score = 0.9, e_texture_score = 0.9,
           brightness_score = 0.9, contour_score = 0.9 \<rparr>"
  by (simp_all add: sample_enhanced_backend_def gray_region_def)

lemma improved_alert_calls:
  "\<not> alerted (fst (run (improved_step sample_backend) alert_calls (init_state 0.7)) ! 1)
   \<and> alerted (fst (run (improved_step sample_backend) alert_calls (init_state 0.7)) ! 2)
   \<and> alerted (fst (run (improved_step sample_backend) alert_calls (init_state 0.7)) ! 3)"
  by (simp add: alert_calls_def improved_analyze_accepted [OF gray_region_accepted(1)]
        sample_backend_gray
        init_state_def Let_def recorded_def entered_def init_section_def old_history_def
        append_bounded_def improved_history_length_def stability_metrics_of_def last_n_def
        improved_confidence_borderline improved_determine_alert_level_def
        improved_should_trigger_alert_def improved_cooldown_time_def made_record_def)

lemma yolo8m_alert_calls:
  "\<not> alerted (fst (run (yolo8m_step sample_yolo_backend) alert_calls (init_state 0.7)) ! 1)
   \<and> alerted (fst (run (yolo8m_step sample_yolo_backend) alert_calls (init_state 0.7)) ! 2)
   \<and> alerted (fst (run (yolo8m_step sample_yolo_backend) alert_calls (init_state 0.7)) ! 3)"
  by (simp add: alert_calls_def yolo8m_analyze_accepted [OF gray_region_accepted(1)]
        sample_yolo_analysis sample_yolo_features_gray
        init_state_def Let_def recorded_def entered_def init_section_def old_history_def
        append_bounded_def yolo8m_history_length_def
        yolo8m_confidence_borderline
        yolo8m_should_trigger_alert_def yolo8m_cooldown_time_def made_record_def)

lemma enhanced_alert_calls:
  "\<not> alerted (fst (run (enhanced_step sample_enhanced_backend) alert_calls (init_state 0.7)) ! 1)
   \<and> alerted (fst (run (enhanced_step sample_enhanced_backend) alert_calls (init_state 0.7)) ! 2)
   \<and> alerted (fst (run (enhanced_step sample_enhanced_backend) alert_calls (init_state 0.7)) ! 3)"
  by (simp add: alert_calls_def enhanced_analyze_accepted [OF gray_region_accepted_30(1)]
        sample_enhanced_backend_gray calculate_enhanced_confidence_def
        init_state_def Let_def recorded_def entered_def init_section_def old_history_def
        append_bounded_def enhanced_history_length_def calculate_stability_def last_n_def
        enhanced_should_alert_def enhanced_cooldown_time_def)

lemma improved_stocked_call:
  "\<exists>r s. improved_analyze_shelf_region sample_backend (Some (gray_region 100 100)) ''shelf_1''
            (Some 0) 100 (init_state 0.7) = (Inr r, s)
         \<and> \<not> r_is_empty r \<and> r_reason r = None"
  by (simp add: improved_analyze_accepted [OF gray_region_accepted(2)] sample_backend_gray
        Let_def improved_confidence_stocked improved_should_trigger_alert_def)

lemma yolo8m_stocked_call:
  "\<exists>r s. yolo8m_analyze_shelf_region sample_yolo_backend (Some (gray_region 100 100)) ''shelf_1''
            (Some 0) 100 (init_state 0.7) = (Inr r, s)
         \<and> \<not> r_is_empty r \<and> r_reason r = None"
  by (simp add: yolo8m_analyze_accepted [OF gray_region_accepted(2)] sample_yolo_analysis
        sample_yolo_features_gray Let_def yolo8m_confidence_textured
        yolo8m_should_trigger_alert_def)

lemma enhanced_stocked_call:
  "\<exists>r s. enhanced_analyze_shelf_region sample_enhanced_backend (Some (gray_region 100 100))
            ''shelf_1'' (Some 0) 100 (init_state 0.7) = (Inr r, s)
         \<and> \<not> r_is_empty r \<and> r_reason r = None"
  by (simp add: enhanced_analyze_accepted [OF gray_region_accepted_30(2)]
        sample_enhanced_backend_gray Let_def calculate_enhanced_confidence_def
        enhanced_should_alert_def init_state_def)

lemma improved_borderline_call:
  "\<exists>r s. improved_analyze_shelf_region sample_backend (Some (gray_region 250 250)) ''shelf_1''
            (Some 0) 100 (init_state 0.7) = (Inr r, s)
         \<and> r_is_empty r \<and> r_reason r = None"
  by (simp add: improved_analyze_accepted [OF gray_region_accepted(1)] sample_backend_gray
        Let_def improved_confidence_borderline improved_should_trigger_alert_def
        improved_determine_alert_level_def stability_metrics_of_def recorded_def
        append_bounded_def old_history_def init_state_def)

lemma yolo8m_borderline_call:
  "\<exists>r s. yolo8m_analyze_shelf_region sample_yolo_backend (Some (gray_region 250 250)) ''shelf_1''
            (Some 0) 100 (init_state 0.7) = (Inr r, s)
         \<and> r_is_empty r \<and> r_reason r = None"
  by (simp add: yolo8m_analyze_accepted [OF gray_region_accepted(1)] sample_yolo_analysis
        sample_yolo_features_gray Let_def yolo8m_confidence_borderline split_beta)

lemma improved_mixed_calls:
  "map outcome_stability (fst (run (improved_step sample_backend) mixed_calls (init_state 0.7)))
     = [Some 1, Some 2]"
  "map h_is_empty
     (old_history (snd (run (improved_step sample_backend) mixed_calls (init_state 0.7)))
        ''shelf_1'')
     = [True, False]"
  by (simp_all add: mixed_calls_def improved_analyze_accepted [OF gray_region_accepted(1)]
        improved_analyze_accepted [OF gray_region_accepted(2)]
        sample_backend_gray
        init_state_def Let_def recorded_def entered_def init_section_def old_history_def
        append_bounded_def improved_history_length_def stability_metrics_of_def last_n_def
        improved_confidence_borderline improved_confidence_stocked
        improved_determine_alert_level_def
        improved_should_trigger_alert_def improved_cooldown_time_def made_record_def)

lemma improved_many_calls:
  "\<exists>st h r s. snd (run (improved_step sample_backend) many_calls (init_state 0.7)) = st
      \<and> detection_history st ''shelf_1'' = Some h \<and> length h = 10
      \<and> map h_timestamp h = [5, 6, 7, 8, 9, 10, 11, 12, 13, 14]
      \<and> improved_analyze_shelf_region sample_backend (Some (gray_region 250 250)) ''shelf_1''
           (Some 15) 100 st = (Inr r, s)
      \<and> r_reason r = None
      \<and> map h_timestamp (old_history s ''shelf_1'') = [6, 7, 8, 9, 10, 11, 12, 13, 14, 15]"
  by (simp add: many_calls_def
        improved_analyze_accepted [OF gray_region_accepted(1)]
        sample_backend_gray
        init_state_def Let_def recorded_def entered_def init_section_def old_history_def
        append_bounded_def improved_history_length_def stability_metrics_of_def last_n_def
        improved_confidence_borderline
        improved_determine_alert_level_def
        improved_should_trigger_alert_def improved_cooldown_time_def made_record_def)

lemma enhanced_many_calls:
  "\<exists>st h r s. snd (run (enhanced_step sample_enhanced_backend) many_calls (init_state 0.7)) = st
      \<and> detection_history st ''shelf_1'' = Some h \<and> length h = 8
      \<and> map eh_timestamp h = [7, 8, 9, 10, 11, 12, 13, 14]
      \<and> enhanced_analyze_shelf_region sample_enhanced_backend (Some (gray_region 250 250))
           ''shelf_1'' (Some 15) 100 st = (Inr r, s)
      \<and> r_reason r = None
      \<and> map eh_timestamp (old_history s ''shelf_1'') = [8, 9, 10, 11, 12, 13, 14, 15]"
  by (simp add: many_calls_def
        enhanced_analyze_accepted [OF gray_region_accepted_30(1)]
        sample_enhanced_backend_gray calculate_enhanced_confidence_def
        init_state_def Let_def recorded_def entered_def init_section_def old_history_def
        append_bounded_def enhanced_history_length_def calculate_stability_def last_n_def
        enhanced_should_alert_def enhanced_cooldown_time_def)

lemma lower_bottle: "lower ''bottle'' = ''bottle''" "lower ''person'' = ''person''"
  "lower ''cup'' = ''cup''"
  by (simp_all add: lower_def lower_char_def)

lemma shelf_detections_kept:
  "filter (\<lambda>box. lower (box_class_name box) \<in> product_classes
                 \<and> box_conf box > yolo_confidence_threshold yolo8m_detection_params)
     (all_boxes shelf_detections)
   = [\<lparr> box_class_name = ''bottle'', box_conf = 0.9,
        box_x1 = 0, box_y1 = 0, box_x2 = 50, box_y2 = 50 \<rparr>]"
  by (simp add: shelf_detections_def all_boxes_def lower_bottle product_classes_def
        yolo8m_detection_params_def)

lemma alert_calls_analyze:
  "\<forall>c\<in>set alert_calls. call_section c \<noteq> None" "1 < length alert_calls"
  "alert_calls ! 1 = Analyze (Some (gray_region 250 250)) ''shelf_1'' (Some 0.5) 100"
  by (simp_all add: alert_calls_def)

lemma improved_updated_call:
  "\<exists>r. fst (run (improved_step sample_backend) alert_calls
             (improved_update_sensitivity 1.5 (init_state 0.7))) ! 1 = Some (Inr r)
       \<and> r_reason r = None"
  by (simp add: alert_calls_def improved_analyze_accepted [OF gray_region_accepted(1)]
        sample_backend_gray improved_update_sensitivity_def
        init_state_def Let_def recorded_def entered_def init_section_def old_history_def
        append_bounded_def improved_history_length_def stability_metrics_of_def last_n_def
        improved_confidence_borderline improved_determine_alert_level_def
        improved_should_trigger_alert_def improved_cooldown_time_def made_record_def)

lemma yolo8m_updated_call:
  "\<exists>r. fst (run (yolo8m_step sample_yolo_backend) alert_calls
             (yolo8m_update_sensitivity 1.5 (init_state 0.7))) ! 1 = Some (Inr r)
       \<and> r_reason r = None"
  by (simp add: alert_calls_def yolo8m_analyze_accepted [OF gray_region_accepted(1)]
        sample_yolo_analysis sample_yolo_features_gray yolo8m_update_sensitivity_def
        init_state_def Let_def recorded_def entered_def init_section_def old_history_def
        append_bounded_def yolo8m_history_length_def
        yolo8m_confidence_borderline
        yolo8m_should_trigger_alert_def yolo8m_cooldown_time_def made_record_def)

lemma enhanced_updated_call:
  "\<exists>r. fst (run (enhanced_step sample_enhanced_backend) alert_calls
             (enhanced_update_sensitivity 1.5 (init_state 0.7))) ! 1 = Some (Inr r)
       \<and> r_reason r = None"
  by (simp add: alert_calls_def enhanced_analyze_accepted [OF gray_region_accepted_30(1)]
        sample_enhanced_backend_gray calculate_enhanced_confidence_def
        enhanced_update_sensitivity_def
        init_state_def Let_def recorded_def entered_def init_section_def old_history_def
        append_bounded_def enhanced_history_length_def calculate_stability_def last_n_def
        enhanced_should_alert_def enhanced_cooldown_time_def)

subsection \<open>Properties of the alert policy\<close>

text \<open>
  \<^bold>\<open>Claim C3\<close> (cooldown invariant): run any sequence of calls on a fresh detector
  instance, with any extractors and any initial sensitivity. If two \<open>Analyze\<close> calls on the
  same section both return \<^verbatim>\<open>should_alert = True\<close>, the later call's timestamp is at least
  the cooldown time after the earlier call's timestamp. This holds for the three detector
  classes, with their cooldown times 1.5, 1.0 and 2.0 seconds, also when the timestamps
  supplied by the caller are not increasing. (Timestamps are reals here; a NaN timestamp
  is outside the model.)
\<close>

theorem cooldown_invariant:
  assumes "i < j" and "j < length calls"
      and "call_section (calls ! i) = Some shelf_name"
      and "call_section (calls ! j) = Some shelf_name"
  shows "(alerted (fst (run (improved_step bk1) calls (init_state s0)) ! i)
          \<and> alerted (fst (run (improved_step bk1) calls (init_state s0)) ! j)
          \<longrightarrow> call_time (calls ! i) + improved_cooldown_time \<le> call_time (calls ! j))
       \<and> (alerted (fst (run (yolo8m_step bk2) calls (init_state s0)) ! i)
          \<and> alerted (fst (run (yolo8m_step bk2) calls (init_state s0)) ! j)
          \<longrightarrow> call_time (calls ! i) + yolo8m_cooldown_time \<le> call_time (calls ! j))
       \<and> (alerted (fst (run (enhanced_step bk3) calls (init_state s0)) ! i)
          \<and> alerted (fst (run (enhanced_step bk3) calls (init_state s0)) ! j)
          \<longrightarrow> call_time (calls ! i) + enhanced_cooldown_time \<le> call_time (calls ! j))"
proof (intro conjI impI)
  assume "alerted (fst (run (improved_step bk1) calls (init_state s0)) ! i)
          \<and> alerted (fst (run (improved_step bk1) calls (init_state s0)) ! j)"
  then show "call_time (calls ! i) + improved_cooldown_time \<le> call_time (calls ! j)"
    using run_alerts_apart [OF improved_step_effect [of bk1] _ init_state_invariants(1) [of s0]
            assms(1,2) _ assms(3) _ assms(4)]
    by (simp add: improved_cooldown_time_def)
next
  assume "alerted (fst (run (yolo8m_step bk2) calls (init_state s0)) ! i)
          \<and> alerted (fst (run (yolo8m_step bk2) calls (init_state s0)) ! j)"
  then show "call_time (calls ! i) + yolo8m_cooldown_time \<le> call_time (calls ! j)"
    using run_alerts_apart [OF yolo8m_step_effect [of bk2] _ init_state_invariants(1) [of s0]
            assms(1,2) _ assms(3) _ assms(4)]
    by (simp add: yolo8m_cooldown_time_def)
next
  assume "alerted (fst (run (enhanced_step bk3) calls (init_state s0)) ! i)
          \<and> alerted (fst (run (enhanced_step bk3) calls (init_state s0)) ! j)"
  then show "call_time (calls ! i) + enhanced_cooldown_time \<le> call_time (calls ! j)"
    using run_alerts_apart [OF enhanced_step_effect [of bk3] _ init_state_invariants(1) [of s0]
            assms(1,2) _ assms(3) _ assms(4)]
    by (simp add: enhanced_cooldown_time_def)
qed

theorem cooldown_invariant_witness:
  "(2::nat) < 3 \<and> 3 < length alert_calls
   \<and> call_section (alert_calls ! 2) = Some ''shelf_1''
   \<and> call_section (alert_calls ! 3) = Some ''shelf_1''
   \<and> alerted (fst (run (improved_step sample_backend) alert_calls (init_state 0.7)) ! 2)
   \<and> alerted (fst (run (improved_step sample_backend) alert_calls (init_state 0.7)) ! 3)
   \<and> call_time (alert_calls ! 2) + improved_cooldown_time \<le> call_time (alert_calls ! 3)
   \<and> alerted (fst (run (yolo8m_step sample_yolo_backend) alert_calls (init_state 0.7)) ! 2)
   \<and> alerted (fst (run (yolo8m_step sample_yolo_backend) alert_calls (init_state 0.7)) ! 3)
   \<and> call_time (alert_calls ! 2) + yolo8m_cooldown_time \<le> call_time (alert_calls ! 3)
   \<and> alerted (fst (run (enhanced_step sample_enhanced_backend) alert_calls (init_state 0.7)) ! 2)
   \<and> alerted (fst (run (enhanced_step sample_enhanced_backend) alert_calls (init_state 0.7)) ! 3)
   \<and> call_time (alert_calls ! 2) + enhanced_cooldown_time \<le> call_time (alert_calls ! 3)"
proof -
  have h: "(2::nat) < 3" "3 < length alert_calls"
    "call_section (alert_calls ! 2) = Some ''shelf_1''"
    "call_section (alert_calls ! 3) = Some ''shelf_1''"
    by (simp_all add: alert_calls_def)
  from cooldown_invariant [OF h, of sample_backend "0.7" sample_yolo_backend
         sample_enhanced_backend]
       h improved_alert_calls yolo8m_alert_calls enhanced_alert_calls
  show ?thesis by blast
qed

text \<open>
  \<^bold>\<open>Claim C8\<close>: whenever \<^verbatim>\<open>analyze_shelf_region\<close> returns a result with
  \<^verbatim>\<open>is_empty = False\<close>, that result has \<^verbatim>\<open>should_alert = False\<close>, for every region, every
  extractor output, every timestamp and every state of the detector (any confidence,
  history and cooldown clock). This holds for the three detector classes, for the canned
  input-error results as well.
\<close>

theorem no_alert_when_stocked:
  "(improved_analyze_shelf_region bk1 roi n ts now st1 = (Inr res1, st1')
      \<and> \<not> r_is_empty res1 \<longrightarrow> \<not> r_should_alert res1)
   \<and> (yolo8m_analyze_shelf_region bk2 roi n ts now st2 = (Inr res2, st2')
      \<and> \<not> r_is_empty res2 \<longrightarrow> \<not> r_should_alert res2)
   \<and> (enhanced_analyze_shelf_region bk3 roi n ts now st3 = (Inr res3, st3')
      \<and> \<not> r_is_empty res3 \<longrightarrow> \<not> r_should_alert res3)"
proof (intro conjI impI)
  assume a: "improved_analyze_shelf_region bk1 roi n ts now st1 = (Inr res1, st1')
             \<and> \<not> r_is_empty res1"
  show "\<not> r_should_alert res1"
  proof (cases "r_reason res1")
    case None
    from improved_analyze_success [OF conjunct1 [OF a] None] a show ?thesis
      by (auto simp: Let_def)
  next
    case (Some msg)
    with improved_analyze_error [OF conjunct1 [OF a]] show ?thesis
      by (auto simp: improved_create_error_result_def)
  qed
next
  assume a: "yolo8m_analyze_shelf_region bk2 roi n ts now st2 = (Inr res2, st2')
             \<and> \<not> r_is_empty res2"
  show "\<not> r_should_alert res2"
  proof (cases "r_reason res2")
    case None
    from yolo8m_analyze_success [OF conjunct1 [OF a] None] a show ?thesis
      by (auto simp: Let_def)
  next
    case (Some msg)
    with yolo8m_analyze_error [OF conjunct1 [OF a]] show ?thesis
      by (auto simp: yolo8m_create_error_result_def)
  qed
next
  assume a: "enhanced_analyze_shelf_region bk3 roi n ts now st3 = (Inr res3, st3')
             \<and> \<not> r_is_empty res3"
  show "\<not> r_should_alert res3"
  proof (cases "r_reason res3")
    case None
    from enhanced_analyze_success [OF conjunct1 [OF a] None] a show ?thesis
      by (auto simp: Let_def)
  next
    case (Some msg)
    with enhanced_analyze_error [OF conjunct1 [OF a]] show ?thesis
      by (auto simp: enhanced_create_result_def)
  qed
qed

theorem no_alert_when_stocked_witness:
  "(\<exists>r s. improved_analyze_shelf_region sample_backend (Some (gray_region 100 100)) ''shelf_1''
            (Some 0) 100 (init_state 0.7) = (Inr r, s)
         \<and> \<not> r_is_empty r \<and> \<not> r_should_alert r)
   \<and> (\<exists>r s. yolo8m_analyze_shelf_region sample_yolo_backend (Some (gray_region 100 100))
            ''shelf_1'' (Some 0) 100 (init_state 0.7) = (Inr r, s)
         \<and> \<not> r_is_empty r \<and> \<not> r_should_alert r)
   \<and> (\<exists>r s. enhanced_analyze_shelf_region sample_enhanced_backend (Some (gray_region 100 100))
            ''shelf_1'' (Some 0) 100 (init_state 0.7) = (Inr r, s)
         \<and> \<not> r_is_empty r \<and> \<not> r_should_alert r)"
proof -
  from improved_stocked_call obtain r1 s1 where
    c1: "improved_analyze_shelf_region sample_backend (Some (gray_region 100 100)) ''shelf_1''
           (Some 0) 100 (init_state 0.7) = (Inr r1, s1)" "\<not> r_is_empty r1"
    by blast
  from yolo8m_stocked_call obtain r2 s2 where
    c2: "yolo8m_analyze_shelf_region sample_yolo_backend (Some (gray_region 100 100)) ''shelf_1''
           (Some 0) 100 (init_state 0.7) = (Inr r2, s2)" "\<not> r_is_empty r2"
    by blast
  from enhanced_stocked_call obtain r3 s3 where
    c3: "enhanced_analyze_shelf_region sample_enhanced_backend (Some (gray_region 100 100))
           ''shelf_1'' (Some 0) 100 (init_state 0.7) = (Inr r3, s3)" "\<not> r_is_empty r3"
    by blast
  from no_alert_when_stocked
         [of sample_backend "Some (gray_region 100 100)" "''shelf_1''" "Some 0" 100
             "init_state 0.7" r1 s1 sample_yolo_backend "init_state 0.7" r2 s2
             sample_enhanced_backend "init_state 0.7" r3 s3]
       c1 c2 c3
  show ?thesis by blast
qed

subsection \<open>Shape of the results\<close>

text \<open>
  \<^bold>\<open>Claim C10\<close>: in every result returned by \<^verbatim>\<open>analyze_shelf_region\<close> of
  \<^verbatim>\<open>ImprovedYOLODetector\<close> and of \<^verbatim>\<open>YOLOv8mShelfDetector\<close>, \<^verbatim>\<open>fullness_score\<close> is
  \<open>1 - confidence\<close> when \<^verbatim>\<open>is_empty\<close> is true and equals \<^verbatim>\<open>confidence\<close> when it is false
  (\<^verbatim>\<open>confidence\<close> is the aggregator's \<^verbatim>\<open>empty_confidence\<close>). The canned input-error results
  satisfy the same equation.
\<close>

theorem fullness_determined:
  "(improved_analyze_shelf_region bk1 roi n ts now st1 = (Inr res1, st1') \<longrightarrow>
      r_fullness_score res1
        = Some (if r_is_empty res1 then 1 - r_confidence res1 else r_confidence res1))
   \<and> (yolo8m_analyze_shelf_region bk2 roi n ts now st2 = (Inr res2, st2') \<longrightarrow>
      r_fullness_score res2
        = Some (if r_is_empty res2 then 1 - r_confidence res2 else r_confidence res2))"
proof (intro conjI impI)
  assume a: "improved_analyze_shelf_region bk1 roi n ts now st1 = (Inr res1, st1')"
  show "r_fullness_score res1
          = Some (if r_is_empty res1 then 1 - r_confidence res1 else r_confidence res1)"
  proof (cases "r_reason res1")
    case None
    from improved_analyze_success [OF a None] obtain a1 where
      "r_is_empty res1
         = is_empty (calculate_improved_confidence improved_detection_params (sensitivity st1) a1)"
      "r_confidence res1
         = empty_confidence
             (calculate_improved_confidence improved_detection_params (sensitivity st1) a1)"
      "r_fullness_score res1
         = Some (fullness_score
             (calculate_improved_confidence improved_detection_params (sensitivity st1) a1))"
      by (auto simp: Let_def)
    then show ?thesis
      using improved_confidence_fullness
        [of improved_detection_params "sensitivity st1" a1]
      by simp
  next
    case (Some msg)
    with improved_analyze_error [OF a] show ?thesis
      by (auto simp: improved_create_error_result_def)
  qed
next
  assume a: "yolo8m_analyze_shelf_region bk2 roi n ts now st2 = (Inr res2, st2')"
  show "r_fullness_score res2
          = Some (if r_is_empty res2 then 1 - r_confidence res2 else r_confidence res2)"
  proof (cases "r_reason res2")
    case None
    from yolo8m_analyze_success [OF a None] obtain a2 where
      "r_is_empty res2
         = is_empty
             (calculate_yolo_enhanced_confidence yolo8m_detection_params (sensitivity st2) a2)"
      "r_confidence res2
         = empty_confidence
             (calculate_yolo_enhanced_confidence yolo8m_detection_params (sensitivity st2) a2)"
      "r_fullness_score res2
         = Some (fullness_score
             (calculate_yolo_enhanced_confidence yolo8m_detection_params (sensitivity st2) a2))"
      by (auto simp: Let_def)
    then show ?thesis
      using yolo8m_confidence_fullness
        [of yolo8m_detection_params "sensitivity st2" a2]
      by simp
  next
    case (Some msg)
    with yolo8m_analyze_error [OF a] show ?thesis
      by (auto simp: yolo8m_create_error_result_def)
  qed
qed

theorem fullness_determined_witness:
  "(\<exists>r s. improved_analyze_shelf_region sample_backend (Some (gray_region 100 100)) ''shelf_1''
            (Some 0) 100 (init_state 0.7) = (Inr r, s)
         \<and> \<not> r_is_empty r \<and> r_fullness_score r = Some (r_confidence r))
   \<and> (\<exists>r s. improved_analyze_shelf_region sample_backend (Some (gray_region 250 250)) ''shelf_1''
            (Some 0) 100 (init_state 0.7) = (Inr r, s)
         \<and> r_is_empty r \<and> r_fullness_score r = Some (1 - r_confidence r))
   \<and> (\<exists>r s. yolo8m_analyze_shelf_region sample_yolo_backend (Some (gray_region 100 100))
            ''shelf_1'' (Some 0) 100 (init_state 0.7) = (Inr r, s)
         \<and> \<not> r_is_empty r \<and> r_fullness_score r = Some (r_confidence r))
   \<and> (\<exists>r s. yolo8m_analyze_shelf_region sample_yolo_backend (Some (gray_region 250 250))
            ''shelf_1'' (Some 0) 100 (init_state 0.7) = (Inr r, s)
         \<and> r_is_empty r \<and> r_fullness_score r = Some (1 - r_confidence r))"
proof -
  from improved_stocked_call obtain r1 s1 where
    c1: "improved_analyze_shelf_region sample_backend (Some (gray_region 100 100)) ''shelf_1''
           (Some 0) 100 (init_state 0.7) = (Inr r1, s1)" "\<not> r_is_empty r1"
    by blast
  from improved_borderline_call obtain r2 s2 where
    c2: "improved_analyze_shelf_region sample_backend (Some (gray_region 250 250)) ''shelf_1''
           (Some 0) 100 (init_state 0.7) = (Inr r2, s2)" "r_is_empty r2"
    by blast
  from yolo8m_stocked_call obtain r3 s3 where
    c3: "yolo8m_analyze_shelf_region sample_yolo_backend (Some (gray_region 100 100)) ''shelf_1''
           (Some 0) 100 (init_state 0.7) = (Inr r3, s3)" "\<not> r_is_empty r3"
    by blast
  from yolo8m_borderline_call obtain r4 s4 where
    c4: "yolo8m_analyze_shelf_region sample_yolo_backend (Some (gray_region 250 250)) ''shelf_1''
           (Some 0) 100 (init_state 0.7) = (Inr r4, s4)" "r_is_empty r4"
    by blast
  from fullness_determined
         [of sample_backend "Some (gray_region 100 100)" "''shelf_1''" "Some 0" 100
             "init_state 0.7" r1 s1 sample_yolo_backend "init_state 0.7" r3 s3]
       c1 c3
  have f1: "r_fullness_score r1 = Some (r_confidence r1)"
    and f3: "r_fullness_score r3 = Some (r_confidence r3)"
    by simp_all
  from fullness_determined
         [of sample_backend "Some (gray_region 250 250)" "''shelf_1''" "Some 0" 100
             "init_state 0.7" r2 s2 sample_yolo_backend "init_state 0.7" r4 s4]
       c2 c4
  have f2: "r_fullness_score r2 = Some (1 - r_confidence r2)"
    and f4: "r_fullness_score r4 = Some (1 - r_confidence r4)"
    by simp_all
  from c1 c2 c3 c4 f1 f2 f3 f4 show ?thesis by blast
qed

text \<open>
  \<^bold>\<open>Claim C1\<close> (a region that is missing, of size zero or below the minimum size gives
  \<^verbatim>\<open>is_empty = True\<close> and \<^verbatim>\<open>confidence = 1.0\<close>) holds of \<^verbatim>\<open>ImprovedYOLODetector\<close> but not of
  \<^verbatim>\<open>YOLOv8mShelfDetector\<close>, whose \<^verbatim>\<open>_create_error_result\<close> is the canned result
  \<^verbatim>\<open>is_empty = False, confidence = 0.0\<close> with the visual state \<^verbatim>\<open>UNCERTAIN\<close>: a 10 by 10
  region gives that result.
\<close>

theorem rejection_result_counterexample:
  "rejected 50 (Some (gray_region 10 10))
   \<and> fst (yolo8m_analyze_shelf_region sample_yolo_backend (Some (gray_region 10 10)) ''shelf_1''
            (Some 0) 100 (init_state 0.7))
       = Inr (yolo8m_create_error_result ''Region too small for analysis'' ''shelf_1'')
   \<and> \<not> r_is_empty (yolo8m_create_error_result ''Region too small for analysis'' ''shelf_1'')
   \<and> r_confidence (yolo8m_create_error_result ''Region too small for analysis'' ''shelf_1'') = 0"
  by (simp add: rejected_def gray_region_def roi_size_def yolo8m_analyze_shelf_region_def
        yolo8m_create_error_result_def)

text \<open>
  \<^bold>\<open>Claim C1, amended\<close>: for every region that is missing, of size zero, or less than 50
  pixels high or wide, \<^verbatim>\<open>analyze_shelf_region\<close> returns a canned result and leaves the
  state unchanged; the result is \<^verbatim>\<open>is_empty = True, confidence = 1.0\<close> in
  \<^verbatim>\<open>ImprovedYOLODetector\<close> and \<^verbatim>\<open>is_empty = False, confidence = 0.0\<close> in
  \<^verbatim>\<open>YOLOv8mShelfDetector\<close>, in both with \<^verbatim>\<open>should_alert = False\<close>. The call returns this
  for every extractor backend, also one that always raises, and returns the same for any
  other backend and any other pixel content: no extractor is invoked.
\<close>

theorem minimum_size_rejection:
  assumes "rejected 50 roi"
  shows "(\<exists>r. improved_analyze_shelf_region bk1 roi n ts now st1 = (Inr r, st1)
              \<and> r_is_empty r \<and> r_confidence r = 1 \<and> \<not> r_should_alert r \<and> r_reason r \<noteq> None)
       \<and> improved_analyze_shelf_region bk1' (map_option (\<lambda>im. im\<lparr>pixels := px\<rparr>) roi)
             n ts now st1
           = improved_analyze_shelf_region bk1 roi n ts now st1
       \<and> (\<exists>r. yolo8m_analyze_shelf_region bk2 roi n ts now st2 = (Inr r, st2)
              \<and> \<not> r_is_empty r \<and> r_confidence r = 0 \<and> \<not> r_should_alert r \<and> r_reason r \<noteq> None)
       \<and> yolo8m_analyze_shelf_region bk2' (map_option (\<lambda>im. im\<lparr>pixels := px\<rparr>) roi)
             n ts now st2
           = yolo8m_analyze_shelf_region bk2 roi n ts now st2"
proof (intro conjI)
  show "\<exists>r. improved_analyze_shelf_region bk1 roi n ts now st1 = (Inr r, st1)
            \<and> r_is_empty r \<and> r_confidence r = 1 \<and> \<not> r_should_alert r \<and> r_reason r \<noteq> None"
    by (simp add: improved_rejected_result [OF assms] improved_create_error_result_def)
  show "\<exists>r. yolo8m_analyze_shelf_region bk2 roi n ts now st2 = (Inr r, st2)
            \<and> \<not> r_is_empty r \<and> r_confidence r = 0 \<and> \<not> r_should_alert r \<and> r_reason r \<noteq> None"
    by (simp add: yolo8m_rejected_result [OF assms] yolo8m_create_error_result_def)
  have px: "rejected 50 (map_option (\<lambda>im. im\<lparr>pixels := px\<rparr>) roi)"
    using assms by (simp add: rejected_pixels)
  have same: "(map_option (\<lambda>im. im\<lparr>pixels := px\<rparr>) roi = None
                 \<or> roi_size (the (map_option (\<lambda>im. im\<lparr>pixels := px\<rparr>) roi)) = 0)
              \<longleftrightarrow> (roi = None \<or> roi_size (the roi) = 0)"
    by (cases roi) (simp_all add: roi_size_def)
  show "improved_analyze_shelf_region bk1' (map_option (\<lambda>im. im\<lparr>pixels := px\<rparr>) roi)
          n ts now st1
        = improved_analyze_shelf_region bk1 roi n ts now st1"
    unfolding improved_rejected_result [OF assms] improved_rejected_result [OF px] same ..
  show "yolo8m_analyze_shelf_region bk2' (map_option (\<lambda>im. im\<lparr>pixels := px\<rparr>) roi)
          n ts now st2
        = yolo8m_analyze_shelf_region bk2 roi n ts now st2"
    unfolding yolo8m_rejected_result [OF assms] yolo8m_rejected_result [OF px] same ..
qed

theorem minimum_size_rejection_witness:
  "rejected 50 (Some (gray_region 10 10))
   \<and> (\<exists>r. improved_analyze_shelf_region (\<lambda>im. Inl BackendError) (Some (gray_region 10 10))
             ''shelf_1'' (Some 0) 100 (init_state 0.7) = (Inr r, init_state 0.7)
          \<and> r_is_empty r \<and> r_confidence r = 1)
   \<and> (\<exists>r. yolo8m_analyze_shelf_region sample_yolo_backend (Some (gray_region 10 10))
             ''shelf_1'' (Some 0) 100 (init_state 0.7) = (Inr r, init_state 0.7)
          \<and> \<not> r_is_empty r \<and> r_confidence r = 0)"
proof -
  have h: "rejected 50 (Some (gray_region 10 10))"
    by (simp add: rejected_def gray_region_def roi_size_def)
  from minimum_size_rejection [OF h, of "\<lambda>im. Inl BackendError" "''shelf_1''" "Some 0" 100
         "init_state 0.7" _ _ sample_yolo_backend "init_state 0.7"] h
  show ?thesis by blast
qed

subsection \<open>Temporal stabiliser\<close>

text \<open>
  \<^bold>\<open>Claim C5\<close> (the stability score is the number of the most recent at most five records
  whose \<^verbatim>\<open>is_empty\<close> equals that of the most recent record) fails for histories of fewer
  than three records, where the code returns the history length. After an empty and then a
  stocked observation of one section, \<^verbatim>\<open>ImprovedYOLODetector\<close> reports the stability 2,
  while only one of the two records (the last one) matches the most recent state.
\<close>

theorem stability_score_counterexample:
  "map outcome_stability (fst (run (improved_step sample_backend) mixed_calls (init_state 0.7)))
     = [Some 1, Some 2]
   \<and> map h_is_empty
       (old_history (snd (run (improved_step sample_backend) mixed_calls (init_state 0.7)))
          ''shelf_1'')
     = [True, False]
   \<and> spec_consistency [True, False] = 1"
  by (simp add: improved_mixed_calls spec_consistency_def last_n_def)

text \<open>
  \<^bold>\<open>Claim C5, amended\<close>: the stability score returned by a successful analysis (of
  \<^verbatim>\<open>ImprovedYOLODetector\<close> and \<^verbatim>\<open>EnhancedShelfDetector\<close>) is computed from the section's
  history after the new record is appended: with fewer than three records it is the number
  of records; with three or more it is the number of the most recent at most five records
  whose \<^verbatim>\<open>is_empty\<close> equals that of the most recent record, capped at five.
\<close>

theorem stability_score:
  "(improved_analyze_shelf_region bk1 roi n ts now st1 = (Inr res1, st1') \<and> r_reason res1 = None
      \<longrightarrow> (\<exists>history. detection_history st1' n = Some history
             \<and> r_stability res1 =
                 Some (if length history < 3 then length history
                       else spec_consistency (map h_is_empty history))))
   \<and> (enhanced_analyze_shelf_region bk3 roi n ts now st3 = (Inr res3, st3') \<and> r_reason res3 = None
      \<longrightarrow> (\<exists>history. detection_history st3' n = Some history
             \<and> r_stability res3 =
                 Some (if length history < 3 then length history
                       else spec_consistency (map eh_is_empty history))))"
proof (intro conjI impI)
  assume a: "improved_analyze_shelf_region bk1 roi n ts now st1 = (Inr res1, st1')
             \<and> r_reason res1 = None"
  from improved_analyze_success [OF conjunct1 [OF a] conjunct2 [OF a]]
  obtain history where "detection_history st1' n = Some history"
    "r_stability res1 = Some (consistency_score (stability_metrics_of history))"
    by (auto simp: Let_def)
  then show "\<exists>history. detection_history st1' n = Some history
               \<and> r_stability res1 =
                   Some (if length history < 3 then length history
                         else spec_consistency (map h_is_empty history))"
    by (auto simp: improved_consistency)
next
  assume a: "enhanced_analyze_shelf_region bk3 roi n ts now st3 = (Inr res3, st3')
             \<and> r_reason res3 = None"
  from enhanced_analyze_success [OF conjunct1 [OF a] conjunct2 [OF a]]
  obtain history r where h: "detection_history st3' n = Some history"
    "r_stability res3 = Some (calculate_stability (recorded enhanced_history_length n r st3) n)"
    "detection_history (recorded enhanced_history_length n r st3) n = Some history"
    by (auto simp: Let_def)
  from enhanced_consistency [OF h(3)] h(1,2)
  show "\<exists>history. detection_history st3' n = Some history
               \<and> r_stability res3 =
                   Some (if length history < 3 then length history
                         else spec_consistency (map eh_is_empty history))"
    by auto
qed

theorem stability_score_witness:
  "(\<exists>r s history.
      improved_analyze_shelf_region sample_backend (Some (gray_region 250 250)) ''shelf_1''
        (Some 15) 100 (snd (run (improved_step sample_backend) many_calls (init_state 0.7)))
        = (Inr r, s)
      \<and> r_reason r = None
      \<and> detection_history s ''shelf_1'' = Some history \<and> length history = 10
      \<and> r_stability r = Some (spec_consistency (map h_is_empty history)))
   \<and> (\<exists>r s history.
      enhanced_analyze_shelf_region sample_enhanced_backend (Some (gray_region 250 250))
        ''shelf_1'' (Some 15) 100
        (snd (run (enhanced_step sample_enhanced_backend) many_calls (init_state 0.7)))
        = (Inr r, s)
      \<and> r_reason r = None
      \<and> detection_history s ''shelf_1'' = Some history \<and> length history = 8
      \<and> r_stability r = Some (spec_consistency (map eh_is_empty history)))"
proof -
  define st1 where "st1 = snd (run (improved_step sample_backend) many_calls (init_state 0.7))"
  define st3 where
    "st3 = snd (run (enhanced_step sample_enhanced_backend) many_calls (init_state 0.7))"
  from improved_many_calls obtain r1 s1 where
    i: "improved_analyze_shelf_region sample_backend (Some (gray_region 250 250)) ''shelf_1''
          (Some 15) 100 st1 = (Inr r1, s1)"
       "r_reason r1 = None"
       "map h_timestamp (old_history s1 ''shelf_1'') = [6, 7, 8, 9, 10, 11, 12, 13, 14, 15]"
    unfolding st1_def by auto
  from enhanced_many_calls obtain r3 s3 where
    e: "enhanced_analyze_shelf_region sample_enhanced_backend (Some (gray_region 250 250))
          ''shelf_1'' (Some 15) 100 st3 = (Inr r3, s3)"
       "r_reason r3 = None"
       "map eh_timestamp (old_history s3 ''shelf_1'') = [8, 9, 10, 11, 12, 13, 14, 15]"
    unfolding st3_def by auto
  from stability_score
         [of sample_backend "Some (gray_region 250 250)" "''shelf_1''" "Some 15" 100
             st1 r1 s1 sample_enhanced_backend st3 r3 s3]
       i(1,2) e(1,2)
  obtain h1 h3 where
    h1: "detection_history s1 ''shelf_1'' = Some h1"
        "r_stability r1 = Some (if length h1 < 3 then length h1
                                else spec_consistency (map h_is_empty h1))"
    and h3: "detection_history s3 ''shelf_1'' = Some h3"
        "r_stability r3 = Some (if length h3 < 3 then length h3
                                else spec_consistency (map eh_is_empty h3))"
    by blast
  from h1(1) i(3) have l1: "length h1 = 10"
    using length_map [of h_timestamp h1] by (simp add: old_history_def)
  from h3(1) e(3) have l3: "length h3 = 8"
    using length_map [of eh_timestamp h3] by (simp add: old_history_def)
  from i(1,2) e(1,2) h1 h3 l1 l3 show ?thesis
    unfolding st1_def st3_def by auto
qed

text \<open>
  \<^bold>\<open>Claim C7\<close> (history bound): after any sequence of calls on a fresh detector instance,
  every section's history holds at most \<^verbatim>\<open>history_length\<close> records (10 in
  \<^verbatim>\<open>ImprovedYOLODetector\<close>, 8 in \<^verbatim>\<open>EnhancedShelfDetector\<close>). A successful analysis of a
  section whose history is within the bound appends its record at the end; when the
  history is at capacity, the oldest record (the head) is dropped and the others keep their
  order.
\<close>

theorem history_bound:
  "history_bounded improved_history_length
     (snd (run (improved_step bk1) calls (init_state s0)))
   \<and> history_bounded enhanced_history_length
       (snd (run (enhanced_step bk3) calls (init_state s0)))
   \<and> (improved_analyze_shelf_region bk1 roi n ts now st1 = (Inr res1, st1')
        \<and> r_reason res1 = None \<and> detection_history st1 n = Some h1
        \<and> length h1 \<le> improved_history_length
      \<longrightarrow> (\<exists>rec. detection_history st1' n
                    = Some ((if length h1 < improved_history_length then h1 else tl h1) @ [rec])
                \<and> h_timestamp rec = (case ts of None \<Rightarrow> now | Some t \<Rightarrow> t)
                \<and> h_is_empty rec = r_is_empty res1
                \<and> h_empty_confidence rec = r_confidence res1))
   \<and> (enhanced_analyze_shelf_region bk3 roi n ts now st3 = (Inr res3, st3')
        \<and> r_reason res3 = None \<and> detection_history st3 n = Some h3
        \<and> length h3 \<le> enhanced_history_length
      \<longrightarrow> (\<exists>rec. detection_history st3' n
                    = Some ((if length h3 < enhanced_history_length then h3 else tl h3) @ [rec])
                \<and> eh_timestamp rec = (case ts of None \<Rightarrow> now | Some t \<Rightarrow> t)
                \<and> eh_is_empty rec = r_is_empty res3
                \<and> eh_confidence rec = r_confidence res3))"
proof (intro conjI impI)
  show "history_bounded improved_history_length
          (snd (run (improved_step bk1) calls (init_state s0)))"
    by (rule run_bounded [OF improved_step_effect init_state_invariants(2)])
  show "history_bounded enhanced_history_length
          (snd (run (enhanced_step bk3) calls (init_state s0)))"
    by (rule run_bounded [OF enhanced_step_effect init_state_invariants(2)])
next
  assume a: "improved_analyze_shelf_region bk1 roi n ts now st1 = (Inr res1, st1')
             \<and> r_reason res1 = None \<and> detection_history st1 n = Some h1
             \<and> length h1 \<le> improved_history_length"
  then have old: "old_history st1 n = h1"
    by (simp add: old_history_def)
  from a have eq: "append_bounded improved_history_length rec h1 =
                     (if length h1 < improved_history_length then h1 else tl h1) @ [rec]" for rec
    by (intro append_bounded_eq) (simp_all add: improved_history_length_def)
  from a have call: "improved_analyze_shelf_region bk1 roi n ts now st1 = (Inr res1, st1')"
    and ok: "r_reason res1 = None"
    by simp_all
  from improved_analyze_success [OF call ok] old eq
  show "\<exists>rec. detection_history st1' n
                 = Some ((if length h1 < improved_history_length then h1 else tl h1) @ [rec])
             \<and> h_timestamp rec = (case ts of None \<Rightarrow> now | Some t \<Rightarrow> t)
             \<and> h_is_empty rec = r_is_empty res1
             \<and> h_empty_confidence rec = r_confidence res1"
    by (auto simp: Let_def made_record_def)
next
  assume a: "enhanced_analyze_shelf_region bk3 roi n ts now st3 = (Inr res3, st3')
             \<and> r_reason res3 = None \<and> detection_history st3 n = Some h3
             \<and> length h3 \<le> enhanced_history_length"
  then have old: "old_history st3 n = h3"
    by (simp add: old_history_def)
  from a have eq: "append_bounded enhanced_history_length rec h3 =
                     (if length h3 < enhanced_history_length then h3 else tl h3) @ [rec]" for rec
    by (intro append_bounded_eq) (simp_all add: enhanced_history_length_def)
  from a have call: "enhanced_analyze_shelf_region bk3 roi n ts now st3 = (Inr res3, st3')"
    and ok: "r_reason res3 = None"
    by simp_all
  from enhanced_analyze_success [OF call ok] old eq
  show "\<exists>rec. detection_history st3' n
                 = Some ((if length h3 < enhanced_history_length then h3 else tl h3) @ [rec])
             \<and> eh_timestamp rec = (case ts of None \<Rightarrow> now | Some t \<Rightarrow> t)
             \<and> eh_is_empty rec = r_is_empty res3
             \<and> eh_confidence rec = r_confidence res3"
    by (auto simp: Let_def)
qed

theorem history_bound_witness:
  "(\<exists>h r s rec.
      detection_history (snd (run (improved_step sample_backend) many_calls (init_state 0.7)))
        ''shelf_1'' = Some h
      \<and> length h = improved_history_length
      \<and> improved_analyze_shelf_region sample_backend (Some (gray_region 250 250)) ''shelf_1''
           (Some 15) 100 (snd (run (improved_step sample_backend) many_calls (init_state 0.7)))
           = (Inr r, s)
      \<and> r_reason r = None
      \<and> detection_history s ''shelf_1'' = Some (tl h @ [rec]) \<and> h_timestamp rec = 15)
   \<and> (\<exists>h r s rec.
      detection_history
        (snd (run (enhanced_step sample_enhanced_backend) many_calls (init_state 0.7)))
        ''shelf_1'' = Some h
      \<and> length h = enhanced_history_length
      \<and> enhanced_analyze_shelf_region sample_enhanced_backend (Some (gray_region 250 250))
           ''shelf_1'' (Some 15) 100
           (snd (run (enhanced_step sample_enhanced_backend) many_calls (init_state 0.7)))
           = (Inr r, s)
      \<and> r_reason r = None
      \<and> detection_history s ''shelf_1'' = Some (tl h @ [rec]) \<and> eh_timestamp rec = 15)"
proof -
  define st1 where "st1 = snd (run (improved_step sample_backend) many_calls (init_state 0.7))"
  define st3 where
    "st3 = snd (run (enhanced_step sample_enhanced_backend) many_calls (init_state 0.7))"
  from improved_many_calls obtain h1 r1 s1 where
    i: "detection_history st1 ''shelf_1'' = Some h1" "length h1 = improved_history_length"
       "improved_analyze_shelf_region sample_backend (Some (gray_region 250 250)) ''shelf_1''
          (Some 15) 100 st1 = (Inr r1, s1)"
       "r_reason r1 = None"
    unfolding st1_def improved_history_length_def by blast
  from enhanced_many_calls obtain h3 r3 s3 where
    e: "detection_history st3 ''shelf_1'' = Some h3" "length h3 = enhanced_history_length"
       "enhanced_analyze_shelf_region sample_enhanced_backend (Some (gray_region 250 250))
          ''shelf_1'' (Some 15) 100 st3 = (Inr r3, s3)"
       "r_reason r3 = None"
    unfolding st3_def enhanced_history_length_def by blast
  from history_bound
         [of sample_backend many_calls "0.7" sample_enhanced_backend
             "Some (gray_region 250 250)" "''shelf_1''" "Some 15" 100 st1 r1 s1 h1
             st3 r3 s3 h3]
       i e
  have "\<exists>rec. detection_history s1 ''shelf_1'' = Some (tl h1 @ [rec]) \<and> h_timestamp rec = 15"
    and "\<exists>rec. detection_history s3 ''shelf_1'' = Some (tl h3 @ [rec]) \<and> eh_timestamp rec = 15"
    by auto
  with i e show ?thesis
    unfolding st1_def st3_def by blast
qed

subsection \<open>Sensitivity\<close>

text \<open>
  \<^bold>\<open>Claim C4\<close> (\<^verbatim>\<open>update_sensitivity(v)\<close> stores \<open>v\<close> clamped into \<open>[0.1, 1.0]\<close>) holds of
  \<^verbatim>\<open>ImprovedYOLODetector\<close> and \<^verbatim>\<open>EnhancedShelfDetector\<close>, but
  \<^verbatim>\<open>YOLOv8mShelfDetector.update_sensitivity\<close> computes \<^verbatim>\<open>max(0.1, min(0.9, v))\<close>: for
  \<open>v = 1.0\<close> it stores 0.9.
\<close>

theorem update_sensitivity_counterexample:
  "sensitivity (yolo8m_update_sensitivity 1.0 (init_state 0.7 :: detection_record detector_state))
     = 0.9
   \<and> clamp 0.1 1.0 1.0 = 1.0"
  by (simp add: yolo8m_update_sensitivity_def clamp_def init_state_def)

text \<open>
  \<^bold>\<open>Claim C4, amended\<close>: \<^verbatim>\<open>update_sensitivity(v)\<close> sets the stored sensitivity to \<open>v\<close>
  clamped into \<open>[0.1, 1.0]\<close> in \<^verbatim>\<open>ImprovedYOLODetector\<close> and \<^verbatim>\<open>EnhancedShelfDetector\<close> and
  into \<open>[0.1, 0.9]\<close> in \<^verbatim>\<open>YOLOv8mShelfDetector\<close>. In any sequence of analyses that follows
  the update (with no other update in between), every successful analysis computes
  \<^verbatim>\<open>is_empty\<close> and \<^verbatim>\<open>confidence\<close> by the aggregator at exactly this clamped value: there is
  no transition period.
\<close>

theorem update_sensitivity_clamps:
  "sensitivity (improved_update_sensitivity v st1) = clamp 0.1 1.0 v
   \<and> sensitivity (enhanced_update_sensitivity v st3) = clamp 0.1 1.0 v
   \<and> sensitivity (yolo8m_update_sensitivity v st2) = clamp 0.1 0.9 v
   \<and> ((\<forall>c\<in>set calls. call_section c \<noteq> None) \<and> k < length calls
        \<and> calls ! k = Analyze (Some im) n ts now
      \<longrightarrow>
        (fst (run (improved_step bk1) calls (improved_update_sensitivity v st1)) ! k
           = Some (Inr res1) \<and> r_reason res1 = None
         \<longrightarrow> (\<exists>a. bk1 im = Inr a
                \<and> r_is_empty res1
                    = is_empty (calculate_improved_confidence improved_detection_params
                                  (clamp 0.1 1.0 v) a)
                \<and> r_confidence res1
                    = empty_confidence (calculate_improved_confidence improved_detection_params
                                          (clamp 0.1 1.0 v) a)))
      \<and> (fst (run (yolo8m_step bk2) calls (yolo8m_update_sensitivity v st2)) ! k
           = Some (Inr res2) \<and> r_reason res2 = None
         \<longrightarrow> (\<exists>a. perform_yolo_enhanced_analysis bk2 im = Inr a
                \<and> r_is_empty res2
                    = is_empty (calculate_yolo_enhanced_confidence yolo8m_detection_params
                                  (clamp 0.1 0.9 v) a)
                \<and> r_confidence res2
                    = empty_confidence
                        (calculate_yolo_enhanced_confidence yolo8m_detection_params
                           (clamp 0.1 0.9 v) a)))
      \<and> (fst (run (enhanced_step bk3) calls (enhanced_update_sensitivity v st3)) ! k
           = Some (Inr res3) \<and> r_reason res3 = None
         \<longrightarrow> (\<exists>a. bk3 im = Inr a
                \<and> calculate_enhanced_confidence (clamp 0.1 1.0 v) a
                    = (r_confidence res3, r_is_empty res3, r_visual_state res3))))"
proof (intro conjI impI)
  show "sensitivity (improved_update_sensitivity v st1) = clamp 0.1 1.0 v"
       "sensitivity (enhanced_update_sensitivity v st3) = clamp 0.1 1.0 v"
       "sensitivity (yolo8m_update_sensitivity v st2) = clamp 0.1 0.9 v"
    by (simp_all only: update_sensitivity_stored)
next
  assume h: "(\<forall>c\<in>set calls. call_section c \<noteq> None) \<and> k < length calls
             \<and> calls ! k = Analyze (Some im) n ts now"
    and r: "fst (run (improved_step bk1) calls (improved_update_sensitivity v st1)) ! k
              = Some (Inr res1) \<and> r_reason res1 = None"
  define st where
    "st = snd (run (improved_step bk1) (take k calls) (improved_update_sensitivity v st1))"
  from h have "\<forall>c\<in>set (take k calls). call_section c \<noteq> None"
    by (intro ball_set_take) simp
  from run_sensitivity [OF improved_step_effect this]
  have sens: "sensitivity st = clamp 0.1 1.0 v"
    by (simp add: st_def update_sensitivity_stored)
  from h r run_nth_step [of k calls "improved_step bk1" "improved_update_sensitivity v st1"]
  have "fst (improved_step bk1 (Analyze (Some im) n ts now) st) = Some (Inr res1)"
    by (simp add: st_def)
  then obtain st' where
    "improved_analyze_shelf_region bk1 (Some im) n ts now st = (Inr res1, st')"
    by (cases "improved_analyze_shelf_region bk1 (Some im) n ts now st") auto
  from improved_analyze_success [OF this conjunct2 [OF r]] sens
  show "\<exists>a. bk1 im = Inr a
          \<and> r_is_empty res1
              = is_empty (calculate_improved_confidence improved_detection_params
                            (clamp 0.1 1.0 v) a)
          \<and> r_confidence res1
              = empty_confidence (calculate_improved_confidence improved_detection_params
                                    (clamp 0.1 1.0 v) a)"
    by (auto simp: Let_def)
next
  assume h: "(\<forall>c\<in>set calls. call_section c \<noteq> None) \<and> k < length calls
             \<and> calls ! k = Analyze (Some im) n ts now"
    and r: "fst (run (yolo8m_step bk2) calls (yolo8m_update_sensitivity v st2)) ! k
              = Some (Inr res2) \<and> r_reason res2 = None"
  define st where
    "st = snd (run (yolo8m_step bk2) (take k calls) (yolo8m_update_sensitivity v st2))"
  from h have "\<forall>c\<in>set (take k calls). call_section c \<noteq> None"
    by (intro ball_set_take) simp
  from run_sensitivity [OF yolo8m_step_effect this]
  have sens: "sensitivity st = clamp 0.1 0.9 v"
    by (simp add: st_def update_sensitivity_stored)
  from h r run_nth_step [of k calls "yolo8m_step bk2" "yolo8m_update_sensitivity v st2"]
  have "fst (yolo8m_step bk2 (Analyze (Some im) n ts now) st) = Some (Inr res2)"
    by (simp add: st_def)
  then obtain st' where
    "yolo8m_analyze_shelf_region bk2 (Some im) n ts now st = (Inr res2, st')"
    by (cases "yolo8m_analyze_shelf_region bk2 (Some im) n ts now st") auto
  from yolo8m_analyze_success [OF this conjunct2 [OF r]] sens
  show "\<exists>a. perform_yolo_enhanced_analysis bk2 im = Inr a
          \<and> r_is_empty res2
              = is_empty (calculate_yolo_enhanced_confidence yolo8m_detection_params
                            (clamp 0.1 0.9 v) a)
          \<and> r_confidence res2
              = empty_confidence
                  (calculate_yolo_enhanced_confidence yolo8m_detection_params
                     (clamp 0.1 0.9 v) a)"
    by (auto simp: Let_def)
next
  assume h: "(\<forall>c\<in>set calls. call_section c \<noteq> None) \<and> k < length calls
             \<and> calls ! k = Analyze (Some im) n ts now"
    and r: "fst (run (enhanced_step bk3) calls (enhanced_update_sensitivity v st3)) ! k
              = Some (Inr res3) \<and> r_reason res3 = None"
  define st where
    "st = snd (run (enhanced_step bk3) (take k calls) (enhanced_update_sensitivity v st3))"
  from h have "\<forall>c\<in>set (take k calls). call_section c \<noteq> None"
    by (intro ball_set_take) simp
  from run_sensitivity [OF enhanced_step_effect this]
  have sens: "sensitivity st = clamp 0.1 1.0 v"
    by (simp add: st_def update_sensitivity_stored)
  from h r run_nth_step [of k calls "enhanced_step bk3" "enhanced_update_sensitivity v st3"]
  have "fst (enhanced_step bk3 (Analyze (Some im) n ts now) st) = Some (Inr res3)"
    by (simp add: st_def)
  then obtain st' where
    "enhanced_analyze_shelf_region bk3 (Some im) n ts now st = (Inr res3, st')"
    by (cases "enhanced_analyze_shelf_region bk3 (Some im) n ts now st") auto
  from enhanced_analyze_success [OF this conjunct2 [OF r]] sens
  show "\<exists>a. bk3 im = Inr a
          \<and> calculate_enhanced_confidence (clamp 0.1 1.0 v) a
              = (r_confidence res3, r_is_empty res3, r_visual_state res3)"
    by (auto simp: Let_def)
qed

theorem update_sensitivity_clamps_witness:
  "map call_section alert_calls
     = [Some ''shelf_1'', Some ''shelf_1'', Some ''shelf_1'', Some ''shelf_1'']
   \<and> 1 < length alert_calls
   \<and> alert_calls ! 1 = Analyze (Some (gray_region 250 250)) ''shelf_1'' (Some 0.5) 100
   \<and> (\<exists>r. fst (run (improved_step sample_backend) alert_calls
                (improved_update_sensitivity 1.5 (init_state 0.7))) ! 1 = Some (Inr r)
          \<and> r_reason r = None
          \<and> r_confidence r
              = empty_confidence (calculate_improved_confidence improved_detection_params
                                    (clamp 0.1 1.0 1.5) borderline_analysis))
   \<and> (\<exists>r. fst (run (yolo8m_step sample_yolo_backend) alert_calls
                (yolo8m_update_sensitivity 1.5 (init_state 0.7))) ! 1 = Some (Inr r)
          \<and> r_reason r = None
          \<and> r_confidence r
              = empty_confidence
                  (calculate_yolo_enhanced_confidence yolo8m_detection_params
                     (clamp 0.1 0.9 1.5) borderline_yolo_analysis))
   \<and> (\<exists>r. fst (run (enhanced_step sample_enhanced_backend) alert_calls
                (enhanced_update_sensitivity 1.5 (init_state 0.7))) ! 1 = Some (Inr r)
          \<and> r_reason r = None
          \<and> (\<exists>a. sample_enhanced_backend (gray_region 250 250) = Inr a
                \<and> calculate_enhanced_confidence (clamp 0.1 1.0 1.5) a
                    = (r_confidence r, r_is_empty r, r_visual_state r)))"
proof -
  from improved_updated_call obtain r1 where
    r1: "fst (run (improved_step sample_backend) alert_calls
               (improved_update_sensitivity 1.5 (init_state 0.7))) ! 1 = Some (Inr r1)"
        "r_reason r1 = None"
    by blast
  from yolo8m_updated_call obtain r2 where
    r2: "fst (run (yolo8m_step sample_yolo_backend) alert_calls
               (yolo8m_update_sensitivity 1.5 (init_state 0.7))) ! 1 = Some (Inr r2)"
        "r_reason r2 = None"
    by blast
  from enhanced_updated_call obtain r3 where
    r3: "fst (run (enhanced_step sample_enhanced_backend) alert_calls
               (enhanced_update_sensitivity 1.5 (init_state 0.7))) ! 1 = Some (Inr r3)"
        "r_reason r3 = None"
    by blast
  note t = update_sensitivity_clamps
             [where v = "1.5" and calls = alert_calls and k = 1
                and im = "gray_region 250 250" and n = "''shelf_1''" and ts = "Some 0.5"
                and now = 100 and ?st1.0 = "init_state 0.7" and ?st2.0 = "init_state 0.7"
                and ?st3.0 = "init_state 0.7" and ?bk1.0 = sample_backend
                and ?bk2.0 = sample_yolo_backend and ?bk3.0 = sample_enhanced_backend
                and ?res1.0 = r1 and ?res2.0 = r2 and ?res3.0 = r3]
  from t alert_calls_analyze r1
  have c1: "r_confidence r1
              = empty_confidence (calculate_improved_confidence improved_detection_params
                                    (clamp 0.1 1.0 1.5) borderline_analysis)"
    by (auto simp: sample_backend_gray)
  from t alert_calls_analyze r2
  have c2: "r_confidence r2
              = empty_confidence
                  (calculate_yolo_enhanced_confidence yolo8m_detection_params
                     (clamp 0.1 0.9 1.5) borderline_yolo_analysis)"
    by (auto simp: sample_yolo_analysis sample_yolo_features_gray)
  from t alert_calls_analyze r3
  have c3: "\<exists>a. sample_enhanced_backend (gray_region 250 250) = Inr a
              \<and> calculate_enhanced_confidence (clamp 0.1 1.0 1.5) a
                  = (r_confidence r3, r_is_empty r3, r_visual_state r3)"
    by blast
  have sections: "map call_section alert_calls
                    = [Some ''shelf_1'', Some ''shelf_1'', Some ''shelf_1'', Some ''shelf_1'']"
    by (simp add: alert_calls_def)
  from sections alert_calls_analyze(2,3) r1 r2 r3 c1 c2 c3 show ?thesis by blast
qed

subsection \<open>Object evidence\<close>

text \<open>
  \<^bold>\<open>Claim C9\<close>: when the detector model returns an output for a region with pixels,
  \<^verbatim>\<open>_perform_yolo_detection\<close> keeps exactly the boxes whose class label (lower-cased by the
  code before the lookup) is in the product-class set and whose confidence exceeds the
  confidence threshold. \<^verbatim>\<open>product_count\<close> is the number of kept boxes, \<^verbatim>\<open>coverage_ratio\<close> is
  the total area of the kept boxes divided by the region area \<open>height * width\<close>, clamped to
  1, and the whole result is the same as for a detector output that holds the kept boxes
  only: all other detections are ignored.
\<close>

theorem product_detections_only:
  assumes "model im (yolo_confidence_threshold params) = Inr results"
      and "0 < height im * width im"
  shows "(let kept = filter (\<lambda>box. lower (box_class_name box) \<in> classes
                                   \<and> box_conf box > yolo_confidence_threshold params)
                       (all_boxes results);
              y = perform_yolo_detection (Some model) params classes im
          in product_count y = length kept
           \<and> coverage_ratio y
               = min 1 (sum_list (map box_area kept) / real (height im * width im))
           \<and> products_detected y = map product_of_box kept
           \<and> y = perform_yolo_detection (Some (\<lambda>im thr. Inr [Some kept])) params classes im)"
proof -
  define kept where
    "kept = filter (is_product_detection params classes) (all_boxes results)"
  have k: "filter (\<lambda>box. lower (box_class_name box) \<in> classes
                        \<and> box_conf box > yolo_confidence_threshold params)
             (all_boxes results) = kept"
    unfolding kept_def is_product_detection_def ..
  have again: "filter (is_product_detection params classes) (all_boxes [Some kept]) = kept"
    by (simp add: all_boxes_def kept_def)
  have other: "(\<lambda>im thr. Inr [Some kept]) im (yolo_confidence_threshold params)
                 = (Inr [Some kept] :: py_error + yolo_results)"
    by simp
  show ?thesis
    unfolding k Let_def
    using assms(2)
    by (simp add: perform_yolo_detection_filter
               [where model = model and im = im and params = params and results = results,
                OF assms(1)]
          perform_yolo_detection_filter
               [where model = "\<lambda>im thr. Inr [Some kept]" and im = im and params = params
                  and results = "[Some kept]", OF other]
          again kept_def [symmetric] Let_def)
qed

theorem product_detections_only_witness:
  "shelf_model (gray_region 100 100) (yolo_confidence_threshold yolo8m_detection_params)
     = Inr shelf_detections
   \<and> 0 < height (gray_region 100 100) * width (gray_region 100 100)
   \<and> product_count
        (perform_yolo_detection (Some shelf_model) yolo8m_detection_params product_classes
           (gray_region 100 100)) = 1
   \<and> coverage_ratio
        (perform_yolo_detection (Some shelf_model) yolo8m_detection_params product_classes
           (gray_region 100 100)) = 0.25"
proof -
  have h1: "shelf_model (gray_region 100 100) (yolo_confidence_threshold yolo8m_detection_params)
              = Inr shelf_detections"
    by (simp add: shelf_model_def)
  have h2: "0 < height (gray_region 100 100) * width (gray_region 100 100)"
    by (simp add: gray_region_def)
  note t = product_detections_only
         [where model = shelf_model and im = "gray_region 100 100"
            and params = yolo8m_detection_params and results = shelf_detections
            and classes = product_classes, OF h1 h2, unfolded Let_def shelf_detections_kept]
  from conjunct1 [OF t]
  have "product_count
          (perform_yolo_detection (Some shelf_model) yolo8m_detection_params product_classes
             (gray_region 100 100)) = 1"
    by simp
  moreover from conjunct1 [OF conjunct2 [OF t]]
  have "coverage_ratio
          (perform_yolo_detection (Some shelf_model) yolo8m_detection_params product_classes
             (gray_region 100 100)) = 0.25"
    by (simp add: box_area_def gray_region_def)
  ultimately
  show ?thesis using h1 h2 by blast
qed

end
